theory Spec2Isabelle
  imports Main
begin

chapter \<open>GeneralBasic: the compiler front end, the URCL emitter and its peephole optimizer\<close>

text \<open>
  A shallow embedding of the Python sources \<^verbatim>\<open>compiler.py\<close>, \<^verbatim>\<open>emitter.py\<close> and
  \<^verbatim>\<open>emitters/urcl.py\<close>. Each definition follows the function or method named in the
  text before it: Python objects are records and datatypes, mutation is a state that is
  passed on and returned, an exception is a value, and a loop is a recursive function.
  The definitions come first; the sections of theorems follow them.
\<close>

section \<open>Exceptions as values\<close>

text \<open>
  Every \<^verbatim>\<open>raise\<close> of the Python sources, and every exception the interpreter itself
  throws on the paths modelled here, is a value of this type. A function that can raise
  returns \<open>error + 'a\<close> with \<open>Inl\<close> carrying the exception.
\<close>

datatype error =
    Exception string
  | RuntimeError string
  | ValueError
  | TypeError
  | KeyError
  | IndexError
  | AttributeError
  | NotImplementedError
  | RecursionError

text \<open>Sequencing of steps that can raise.\<close>

definition and_then :: "error + 'a \<Rightarrow> ('a \<Rightarrow> error + 'b) \<Rightarrow> error + 'b" where
  "and_then r f = (case r of Inl e \<Rightarrow> Inl e | Inr x \<Rightarrow> f x)"

section \<open>Text primitives\<close>

text \<open>
  Source text is modelled as \<open>string\<close>. The models of \<^verbatim>\<open>str.upper\<close> and of the regex
  classes are the ASCII ones: a character outside ASCII is left alone by \<open>upper\<close>, which
  agrees with Python wherever the result is only compared with ASCII text, as it is in
  every use below.
\<close>

definition upper_char :: "char \<Rightarrow> char" where
  "upper_char c =
     (case map_of (zip ''abcdefghijklmnopqrstuvwxyz'' ''ABCDEFGHIJKLMNOPQRSTUVWXYZ'') c of
        Some u \<Rightarrow> u
      | None \<Rightarrow> c)"

definition upper :: "string \<Rightarrow> string" where
  "upper s = map upper_char s"

definition is_digit :: "char \<Rightarrow> bool" where
  "is_digit c = (c \<in> set ''0123456789'')"

definition is_nonzero_digit :: "char \<Rightarrow> bool" where
  "is_nonzero_digit c = (c \<in> set ''123456789'')"

definition is_hex_upper :: "char \<Rightarrow> bool" where
  "is_hex_upper c = (c \<in> set ''0123456789ABCDEF'')"

definition is_octal :: "char \<Rightarrow> bool" where
  "is_octal c = (c \<in> set ''01234567'')"

definition is_binary :: "char \<Rightarrow> bool" where
  "is_binary c = (c \<in> set ''01'')"

text \<open>The characters Python counts as whitespace (\<^verbatim>\<open>\s\<close>, \<^verbatim>\<open>str.strip\<close>, \<^verbatim>\<open>str.isspace\<close>).\<close>

definition is_space :: "char \<Rightarrow> bool" where
  "is_space c =
     (c \<in> set [CHR 0x09, CHR 0x0A, CHR 0x0B, CHR 0x0C, CHR 0x0D,
                CHR 0x1C, CHR 0x1D, CHR 0x1E, CHR 0x1F, CHR 0x20, CHR 0x85, CHR 0xA0])"

text \<open>
  What \<^verbatim>\<open>int\<close> drops around a literal is less: the white space of C, and the two
  other characters below 256 that it first turns into a blank.
\<close>

definition is_int_space :: "char \<Rightarrow> bool" where
  "is_int_space c =
     (c \<in> set [CHR 0x09, CHR 0x0A, CHR 0x0B, CHR 0x0C, CHR 0x0D, CHR 0x20, CHR 0x85, CHR 0xA0])"

definition int_strip :: "string \<Rightarrow> string" where
  "int_strip s = rev (dropWhile is_int_space (rev (dropWhile is_int_space s)))"

definition startswith :: "string \<Rightarrow> string \<Rightarrow> bool" where
  "startswith s p = (take (length p) s = p)"

definition endswith :: "string \<Rightarrow> string \<Rightarrow> bool" where
  "endswith s p = (length p \<le> length s \<and> drop (length s - length p) s = p)"

section \<open>Integer literals: \<^verbatim>\<open>parse_value\<close> (compiler.py)\<close>

text \<open>
  \<^verbatim>\<open>(0X[0-9A-F]+)|(0O[0-7]+)|(0B[01]+)|([1-9][0-9]+)|([0-9])\<close>, the group of the
  regex of \<^verbatim>\<open>parse_value\<close>, matched against a whole string.
\<close>

definition value_group :: "string \<Rightarrow> bool" where
  "value_group s =
     (case s of
        [] \<Rightarrow> False
      | [c] \<Rightarrow> is_digit c
      | c1 # c2 # r \<Rightarrow>
          (c1 = CHR ''0'' \<and> c2 = CHR ''X'' \<and> r \<noteq> [] \<and> list_all is_hex_upper r)
        \<or> (c1 = CHR ''0'' \<and> c2 = CHR ''O'' \<and> r \<noteq> [] \<and> list_all is_octal r)
        \<or> (c1 = CHR ''0'' \<and> c2 = CHR ''B'' \<and> r \<noteq> [] \<and> list_all is_binary r)
        \<or> (is_nonzero_digit c1 \<and> list_all is_digit (c2 # r)))"

text \<open>
  \<^verbatim>\<open>re.match(r"^\-?(...)$", s)\<close>: an optional minus sign, the group, and the end of
  the string, which \<^verbatim>\<open>$\<close> also finds just before one final newline.
\<close>

definition value_regex :: "string \<Rightarrow> bool" where
  "value_regex s =
     (let t = (if s \<noteq> [] \<and> last s = CHR 0x0A then butlast s else s);
          b = (if startswith t ''-'' then tl t else t)
      in value_group b)"

text \<open>
  The value of a character as a digit, as \<^verbatim>\<open>int\<close> reads it in a base up to 16
  (a character that is no such digit gets 16, which is below no base used here).
\<close>

definition digit_val :: "char \<Rightarrow> nat" where
  "digit_val c =
     (case map_of (zip ''0123456789ABCDEF'' [0, 1, 2, 3, 4, 5, 6, 7, 8, 9, 10, 11, 12, 13, 14, 15])
             (upper_char c) of
        Some v \<Rightarrow> v
      | None \<Rightarrow> 16)"

fun no_double_underscore :: "string \<Rightarrow> bool" where
  "no_double_underscore (a # b # r) =
     (\<not> (a = CHR ''_'' \<and> b = CHR ''_'') \<and> no_double_underscore (b # r))"
| "no_double_underscore _ = True"

text \<open>
  The digit part of an integer literal for \<^verbatim>\<open>int\<close>: digits of the base, where single
  underscores may stand between two digits.
\<close>

definition py_digits :: "nat \<Rightarrow> string \<Rightarrow> bool" where
  "py_digits base s =
     (s \<noteq> [] \<and> hd s \<noteq> CHR ''_'' \<and> last s \<noteq> CHR ''_'' \<and> no_double_underscore s
      \<and> list_all (\<lambda>c. c = CHR ''_'' \<or> digit_val c < base) s)"

definition base_prefix :: "nat \<Rightarrow> string \<Rightarrow> bool" where
  "base_prefix base s =
     ((base = 16 \<and> (startswith s ''0x'' \<or> startswith s ''0X''))
    \<or> (base = 8 \<and> (startswith s ''0o'' \<or> startswith s ''0O''))
    \<or> (base = 2 \<and> (startswith s ''0b'' \<or> startswith s ''0B'')))"

text \<open>
  \<^verbatim>\<open>int(s, base)\<close> for a base of 2, 8, 10 or 16: whitespace around the literal is
  dropped, one sign may lead, the prefix of the base may follow it (with one underscore
  after it), and the rest must be digits of the base; anything else raises
  \<^verbatim>\<open>ValueError\<close>, and so does a decimal literal of more than 4300 digits (the
  interpreter's limit for bases that are no power of two).
\<close>

definition py_int :: "nat \<Rightarrow> string \<Rightarrow> error + int" where
  "py_int base s =
     (let t = int_strip s;
          neg = startswith t ''-'';
          u = (if startswith t ''-'' \<or> startswith t ''+'' then tl t else t);
          v = (if base_prefix base u
               then (if startswith (drop 2 u) ''_'' then drop 3 u else drop 2 u)
               else u)
      in if py_digits base v
            \<and> \<not> (base = 10 \<and> length (filter (\<lambda>c. c \<noteq> CHR ''_'') v) > 4300)
         then let n = int (foldl (\<lambda>acc c. acc * base + digit_val c) 0
                             (filter (\<lambda>c. c \<noteq> CHR ''_'') v))
              in Inr (if neg then - n else n)
         else Inl ValueError)"

text \<open>
  \<^verbatim>\<open>parse_value\<close>. The regex is tried on \<^verbatim>\<open>text.upper()\<close>, while the prefix tests
  \<^verbatim>\<open>startswith("0X")\<close>, \<^verbatim>\<open>"0O"\<close>, \<^verbatim>\<open>"0B"\<close> read the text as it was given.
\<close>

definition parse_value :: "string \<Rightarrow> error + int" where
  "parse_value text0 =
     (if \<not> value_regex (upper text0) then Inl (Exception ''Invalid value.'')
      else
        let negate = startswith text0 ''-'';
            text = (if negate then tl text0 else text0);
            result =
              (if startswith text ''0X'' then py_int 16 (drop 2 text)
               else if startswith text ''0O'' then py_int 8 (drop 2 text)
               else if startswith text ''0B'' then py_int 2 (drop 2 text)
               else py_int 10 text)
        in case result of
             Inl e \<Rightarrow> Inl e
           | Inr r \<Rightarrow> Inr (if negate then - r else r))"

section \<open>The URCL emitter (emitters/urcl.py)\<close>

text \<open>\<^verbatim>\<open>str(n)\<close> for an integer: its decimal digits, with a minus sign when negative.\<close>

definition digit_char :: "nat \<Rightarrow> char" where
  "digit_char n = ''0123456789'' ! n"

fun str_nat :: "nat \<Rightarrow> string" where
  "str_nat n = (if n < 10 then [digit_char n] else str_nat (n div 10) @ [digit_char (n mod 10)])"

declare str_nat.simps [simp del]

definition str :: "int \<Rightarrow> string" where
  "str i = (if i < 0 then CHR ''-'' # str_nat (nat (- i)) else str_nat (nat i))"

text \<open>\<^verbatim>\<open>s.split(sep)\<close> for a one-character separator, and \<^verbatim>\<open>sep.join(parts)\<close>.\<close>

fun split :: "char \<Rightarrow> string \<Rightarrow> string list" where
  "split sep [] = [[]]"
| "split sep (c # cs) =
     (if c = sep then [] # split sep cs
      else (case split sep cs of
              [] \<Rightarrow> [[c]]
            | w # ws \<Rightarrow> (c # w) # ws))"

fun join :: "string \<Rightarrow> string list \<Rightarrow> string" where
  "join sep [] = []"
| "join sep [w] = w"
| "join sep (w # v # ws) = w @ sep @ join sep (v # ws)"

text \<open>
  The state of a \<^verbatim>\<open>URCLEmitter\<close>: the instruction counter \<^verbatim>\<open>_current\<close>, the
  counter of internal labels \<^verbatim>\<open>_internal\<close>, the instruction buffer \<^verbatim>\<open>_insts\<close>
  (each instruction the list of its tokens, the mnemonic first) and the two flags.
  The list of optimizers is the default one of the constructor, in its order; it is
  built into \<open>commit\<close> below.
\<close>

record emitter =
  current :: int
  internal :: int
  insts :: "string list list"
  showIL :: bool
  optimize :: bool

definition URCLEmitter :: "bool \<Rightarrow> bool \<Rightarrow> emitter" where
  "URCLEmitter il opt = \<lparr>current = 0, internal = 0, insts = [], showIL = il, optimize = opt\<rparr>"

text \<open>
  \<^verbatim>\<open>_emit(*args)\<close> appends one instruction. (It drops arguments that are
  \<^verbatim>\<open>None\<close>; every caller passes strings.)
\<close>

definition emit :: "string list \<Rightarrow> emitter \<Rightarrow> emitter" where
  "emit args em = em\<lparr>insts := insts em @ [args]\<rparr>"

text \<open>
  A jump or call target is an instruction offset or a name; \<^verbatim>\<open>_target\<close> renders it
  as a label.
\<close>

datatype target = Offset int | Named string

fun target_label :: "target \<Rightarrow> bool \<Rightarrow> string" where
  "target_label (Offset n) True = ''.___urcl___internal___'' @ str n"
| "target_label (Offset n) False = ''.___urcl___'' @ str n"
| "target_label (Named s) _ = ''.'' @ s"

definition comment :: "string \<Rightarrow> emitter \<Rightarrow> emitter" where
  "comment text em =
     (case split CHR '' '' text of
        [] \<Rightarrow> em
      | p # ps \<Rightarrow> emit ((''//'' @ p) # ps) em)"

text \<open>
  \<^verbatim>\<open>begin_instruction\<close> reads the name of the method that called it from the
  interpreter's stack; here the caller passes its name.
\<close>

definition begin_instruction :: "string \<Rightarrow> emitter \<Rightarrow> emitter" where
  "begin_instruction caller em =
     (let em1 = (if showIL em then comment caller em else em)
      in emit [target_label (Offset (current em1)) False] em1)"

definition end_instruction :: "emitter \<Rightarrow> emitter" where
  "end_instruction em = em\<lparr>current := current em + 1\<rparr>"

definition emit_raw :: "string \<Rightarrow> string list \<Rightarrow> emitter \<Rightarrow> emitter" where
  "emit_raw operation operands em =
     end_instruction (emit (operation # operands) (begin_instruction ''emit_raw'' em))"

definition push :: "int \<Rightarrow> emitter \<Rightarrow> emitter" where
  "push immediate em =
     end_instruction (emit [''psh'', str immediate] (begin_instruction ''push'' em))"

definition add :: "emitter \<Rightarrow> emitter" where
  "add em =
     end_instruction
       (emit [''psh'', ''R1'']
         (emit [''add'', ''R1'', ''R1'', ''R2'']
           (emit [''pop'', ''R1'']
             (emit [''pop'', ''R2''] (begin_instruction ''add'' em)))))"


definition mul_u :: "emitter \<Rightarrow> emitter" where
  "mul_u em =
     end_instruction
       (emit [''psh'', ''R1'']
         (emit [''mlt'', ''R1'', ''R1'', ''R2'']
           (emit [''pop'', ''R1'']
             (emit [''pop'', ''R2''] (begin_instruction ''mul_u'' em)))))"

text \<open>
  The signed operations. \<^verbatim>\<open>mul_s\<close> hands over to \<^verbatim>\<open>mul_u\<close>; the others are
  \<^verbatim>\<open>raise NotImplementedError()\<close>.
\<close>

definition mul_s :: "emitter \<Rightarrow> error + emitter" where
  "mul_s em = Inr (mul_u em)"

definition div_s :: "emitter \<Rightarrow> error + emitter" where
  "div_s em = Inl NotImplementedError"

definition rem_s :: "emitter \<Rightarrow> error + emitter" where
  "rem_s em = Inl NotImplementedError"

definition cmp_lt_s :: "emitter \<Rightarrow> error + emitter" where
  "cmp_lt_s em = Inl NotImplementedError"

definition cmp_gt_s :: "emitter \<Rightarrow> error + emitter" where
  "cmp_gt_s em = Inl NotImplementedError"

definition cmp_le_s :: "emitter \<Rightarrow> error + emitter" where
  "cmp_le_s em = Inl NotImplementedError"

definition cmp_ge_s :: "emitter \<Rightarrow> error + emitter" where
  "cmp_ge_s em = Inl NotImplementedError"

definition br_lt_s :: "target \<Rightarrow> emitter \<Rightarrow> error + emitter" where
  "br_lt_s tgt em = Inl NotImplementedError"

definition br_gt_s :: "target \<Rightarrow> emitter \<Rightarrow> error + emitter" where
  "br_gt_s tgt em = Inl NotImplementedError"

definition br_le_s :: "target \<Rightarrow> emitter \<Rightarrow> error + emitter" where
  "br_le_s tgt em = Inl NotImplementedError"

definition br_ge_s :: "target \<Rightarrow> emitter \<Rightarrow> error + emitter" where
  "br_ge_s tgt em = Inl NotImplementedError"

definition ret :: "emitter \<Rightarrow> emitter" where
  "ret em = end_instruction (emit [''ret''] (begin_instruction ''ret'' em))"

definition jmp :: "target \<Rightarrow> emitter \<Rightarrow> emitter" where
  "jmp tgt em =
     end_instruction (emit [''jmp'', target_label tgt False] (begin_instruction ''jmp'' em))"

definition call :: "target \<Rightarrow> emitter \<Rightarrow> emitter" where
  "call tgt em =
     end_instruction (emit [''cal'', target_label tgt False] (begin_instruction ''call'' em))"

definition add_sp :: "int \<Rightarrow> emitter \<Rightarrow> emitter" where
  "add_sp offset em =
     end_instruction
       (emit [''sub'', ''SP'', ''SP'', str offset] (begin_instruction ''add_sp'' em))"

definition rem_sp :: "int \<Rightarrow> emitter \<Rightarrow> emitter" where
  "rem_sp offset em =
     end_instruction
       (emit [''add'', ''SP'', ''SP'', str offset] (begin_instruction ''rem_sp'' em))"

definition ld_sp :: "emitter \<Rightarrow> emitter" where
  "ld_sp em = end_instruction (emit [''psh'', ''SP''] (begin_instruction ''ld_sp'' em))"

definition st_sp :: "emitter \<Rightarrow> emitter" where
  "st_sp em = end_instruction (emit [''pop'', ''SP''] (begin_instruction ''st_sp'' em))"

definition ld_bp :: "emitter \<Rightarrow> emitter" where
  "ld_bp em = end_instruction (emit [''psh'', ''R3''] (begin_instruction ''ld_bp'' em))"

definition st_bp :: "emitter \<Rightarrow> emitter" where
  "st_bp em = end_instruction (emit [''pop'', ''R3''] (begin_instruction ''st_bp'' em))"


definition st_ptr :: "int \<Rightarrow> emitter \<Rightarrow> emitter" where
  "st_ptr sz em =
     (let em0 = begin_instruction ''st_ptr'' em;
          em1 =
            (if sz > 0 then
               foldl (\<lambda>e i.
                        emit [''str'', ''R1'', ''R2'']
                          (emit [''pop'', ''R2'']
                            (if i \<noteq> 0 then emit [''add'', ''R1'', ''R1'', ''1''] e else e)))
                 (emit [''pop'', ''R1''] em0)
                 [0..<nat sz]
             else em0)
      in end_instruction em1)"

text \<open>
  Labels (emitter.py): \<^verbatim>\<open>create_label(name)\<close> makes an unmarked \<^verbatim>\<open>Label\<close>;
  \<^verbatim>\<open>mark_label\<close> sets its address to the current offset and, through
  \<^verbatim>\<open>_emit_label\<close>, emits \<^verbatim>\<open>.name\<close> when the name is not empty.
\<close>

record label =
  label_name :: string
  label_address :: "int option"

definition create_label :: "string \<Rightarrow> label" where
  "create_label name = \<lparr>label_name = name, label_address = None\<rparr>"

definition emit_label :: "label \<Rightarrow> emitter \<Rightarrow> emitter" where
  "emit_label l em =
     (if length (label_name l) > 0 then emit [target_label (Named (label_name l)) False] em
      else em)"

definition mark_label :: "label \<Rightarrow> emitter \<Rightarrow> label \<times> emitter" where
  "mark_label l em = (l\<lparr>label_address := Some (current em)\<rparr>, emit_label l em)"

section \<open>Types and memory blocks (compiler.py)\<close>


text \<open>
  The classes under \<^verbatim>\<open>Type\<close>. A place that holds \<^verbatim>\<open>Union[Type, str]\<close> (the type
  of a field, what a pointer refers to) is a \<open>type_ref\<close>: the name as parsed, or the
  type object the resolver put there. A declared \<^verbatim>\<open>Field\<close> keeps its type, name,
  index and offset; its \<^verbatim>\<open>relativeTo\<close> is \<^verbatim>\<open>None\<close> in every declaration
  (\<^verbatim>\<open>parse_field\<close>) and is carried by \<open>FieldVar\<close> below for the fields that
  \<^verbatim>\<open>GetField\<close> hands out.

  After resolution the type objects form a graph, which can have cycles: in
  \<^verbatim>\<open>Structure Node\<close> with \<^verbatim>\<open>Dim next As Node\<close> the type of the field is, once
  \<^verbatim>\<open>Field.Resolve\<close> has run, the object of \<^verbatim>\<open>Node\<close> itself, since
  \<^verbatim>\<open>Resolver.GetType\<close> returns for a name the one object it has under that name. A
  type is written here as the tree of what it refers to, and a reference that leads back
  to the object of a structure enclosing it is written \<open>Enclosing name\<close>: the nearest
  enclosing \<^verbatim>\<open>ComplexType\<close> of that name.
\<close>

datatype Type =
    EmptyType string
  | SignedInteger
  | UnsignedInteger
  | PointerType type_ref
  | ComplexType string "Field list"
  | Enclosing string
and type_ref = TypeName string | TypeObj Type
and Field = Field (field_type: type_ref) (field_name: string) (field_index: int) (field_offset: int)

text \<open>
  \<^verbatim>\<open>GetSize\<close>. For a \<^verbatim>\<open>ComplexType\<close> it is
  \<^verbatim>\<open>sum([field.GetType().GetSize() for field in self._fields])\<close>; a field whose type
  is still a name has no \<^verbatim>\<open>GetSize\<close> (\<^verbatim>\<open>AttributeError\<close>). At a field whose
  type is the object of an enclosing structure, the call is back in a \<^verbatim>\<open>GetSize\<close> that
  is already running for that object; the method keeps no record of this, runs the same
  computation again, and so on, until the interpreter ends it with
  \<^verbatim>\<open>RecursionError\<close>.
\<close>

fun GetSize :: "Type \<Rightarrow> error + int"
  and ref_GetSize :: "type_ref \<Rightarrow> error + int"
  and sum_sizes :: "Field list \<Rightarrow> error + int"
  and field_type_GetSize :: "Field \<Rightarrow> error + int"
where
  "GetSize (EmptyType n) = Inr 0"
| "GetSize SignedInteger = Inr 1"
| "GetSize UnsignedInteger = Inr 1"
| "GetSize (PointerType r) = Inr 1"
| "GetSize (ComplexType n fs) = sum_sizes fs"
| "GetSize (Enclosing n) = Inl RecursionError"
| "ref_GetSize (TypeName s) = Inl AttributeError"
| "ref_GetSize (TypeObj t) = GetSize t"
| "sum_sizes [] = Inr 0"
| "sum_sizes (f # fs) =
     (case field_type_GetSize f of
        Inl e \<Rightarrow> Inl e
      | Inr a \<Rightarrow> (case sum_sizes fs of Inl e \<Rightarrow> Inl e | Inr b \<Rightarrow> Inr (a + b)))"
| "field_type_GetSize (Field t n i off) = ref_GetSize t"

fun GetName :: "Type \<Rightarrow> string" and ref_GetName :: "type_ref \<Rightarrow> string" where
  "GetName (EmptyType n) = n"
| "GetName SignedInteger = ''Integer''"
| "GetName UnsignedInteger = ''UInteger''"
| "GetName (PointerType r) = ref_GetName r @ ''*''"
| "GetName (ComplexType n fs) = n"
| "GetName (Enclosing n) = n"
| "ref_GetName (TypeName s) = s"
| "ref_GetName (TypeObj t) = GetName t"


text \<open>
  The classes under \<^verbatim>\<open>Variable\<close>. A \<^verbatim>\<open>Parameter\<close> keeps the type it was declared
  with and, once resolved, the resolved type in \<^verbatim>\<open>_resolved\<close>.
\<close>

datatype Local = Local (local_type: type_ref) (local_name: string) (local_initial: "int option")

datatype Parameter =
  Parameter (param_type: type_ref) (param_resolved: "Type option") (param_name: string)
    (param_index: int) (param_ref: bool)

datatype Variable =
    LocalVar Local
  | ParameterVar Parameter
  | FieldVar "Variable option" Field
  | ReturnVariable type_ref





subsection \<open>Fields of a \<^verbatim>\<open>ComplexType\<close>\<close>














section \<open>Expressions, statements and callables (compiler.py)\<close>

text \<open>
  The \<^verbatim>\<open>_target\<close> of a \<^verbatim>\<open>VariableExpression\<close> (and of the statements that name a
  variable): the name as parsed, the \<^verbatim>\<open>Variable\<close> it was resolved to, or
  \<^verbatim>\<open>None\<close>.
\<close>

datatype var_target = TargetName string | TargetVar Variable | TargetNone

text \<open>
  The \<^verbatim>\<open>_target\<close> of a \<^verbatim>\<open>CallExpression\<close>: the name as parsed, or the
  \<^verbatim>\<open>Callable\<close> that \<^verbatim>\<open>Resolve\<close> got from the resolver's table of functions. The
  table has one object for a name, and that object is written by its name.
\<close>

datatype call_target = FunctionName string | FunctionObject string

text \<open>
  The classes under \<^verbatim>\<open>Expression\<close>. The attribute \<^verbatim>\<open>_call\<close> of the operator and
  cast nodes is \<^verbatim>\<open>None\<close> until the node is resolved; then it is a
  \<^verbatim>\<open>CallExpression\<close> whose arguments are the operands of the node, the same objects,
  so that the node keeps the target of that call only. \<open>Sentinel\<close> is not an
  expression: it is the string \<^verbatim>\<open>")"\<close> that \<^verbatim>\<open>parse_expression\<close> keeps on its
  operand stack below the arguments of a call.
\<close>

datatype Expression =
    VoidExpression
  | ConstantExpression int type_ref
  | VariableExpression var_target
  | UnaryOperandExpression string Expression "call_target option"
  | BinaryOperandExpression string Expression Expression "call_target option"
  | CastExpression type_ref Expression "call_target option"
  | CallExpression call_target "Expression list"
  | Sentinel

datatype Statement =
    LocalStatement Local
  | AssignmentStatement var_target Expression
  | ReturnStatement Expression
  | AssemblyLoadStatement var_target
  | AssemblyStoreStatement var_target
  | AssemblyInstructionStatement string "string list"
  | CallStatement Expression

fun GetLocals :: "Statement \<Rightarrow> Local list" where
  "GetLocals (LocalStatement l) = [l]"
| "GetLocals _ = []"

text \<open>
  The classes under \<^verbatim>\<open>Callable\<close>: name, parameters (\<^verbatim>\<open>_namedArgs\<close>), return type
  and body, as far as each class has them.
\<close>

datatype Callable =
    InlineBody string type_ref "Statement list"
  | SubRoutine string "Parameter list" "Statement list"
  | Function string "Parameter list" type_ref "Statement list"

text \<open>
  The constructors of \<^verbatim>\<open>SubRoutine\<close> and \<^verbatim>\<open>Function\<close> turn the parsed arguments
  \<^verbatim>\<open>(type, name, ref)\<close> into \<^verbatim>\<open>Parameter\<close> objects numbered from 0.
\<close>

fun make_parameters :: "int \<Rightarrow> (type_ref \<times> string \<times> bool) list \<Rightarrow> Parameter list" where
  "make_parameters i [] = []"
| "make_parameters i ((t, n, r) # args) = Parameter t None n i r # make_parameters (i + 1) args"

definition new_SubRoutine :: "string \<Rightarrow> (type_ref \<times> string \<times> bool) list \<Rightarrow> Statement list \<Rightarrow> Callable" where
  "new_SubRoutine name args body = SubRoutine name (make_parameters 0 args) body"

definition new_Function ::
  "string \<Rightarrow> (type_ref \<times> string \<times> bool) list \<Rightarrow> type_ref \<Rightarrow> Statement list \<Rightarrow> Callable" where
  "new_Function name args returnType body = Function name (make_parameters 0 args) returnType body"

fun Callable_GetName :: "Callable \<Rightarrow> string" where
  "Callable_GetName (InlineBody n r b) = n"
| "Callable_GetName (SubRoutine n ps b) = n"
| "Callable_GetName (Function n ps r b) = n"

fun IsInline :: "Callable \<Rightarrow> bool" where
  "IsInline (InlineBody n r b) = True"
| "IsInline _ = False"

fun GetBody :: "Callable \<Rightarrow> Statement list" where
  "GetBody (InlineBody n r b) = b"
| "GetBody (SubRoutine n ps b) = b"
| "GetBody (Function n ps r b) = b"




text \<open>
  The locals of a callable are those of its statements, in order; an \<^verbatim>\<open>InlineBody\<close>
  reports none. \<^verbatim>\<open>GetLocal\<close> counts \<^verbatim>\<open>offset\<close> down to 0, so it finds nothing
  for a negative index.
\<close>

fun callable_locals :: "Callable \<Rightarrow> Local list" where
  "callable_locals (InlineBody n r b) = []"
| "callable_locals c = concat (map GetLocals (GetBody c))"

definition GetLocalCount :: "Callable \<Rightarrow> int" where
  "GetLocalCount c = int (length (callable_locals c))"

definition GetLocal :: "Callable \<Rightarrow> int \<Rightarrow> error + Local" where
  "GetLocal c i =
     (if 0 \<le> i \<and> i < GetLocalCount c then Inr (callable_locals c ! nat i) else Inl IndexError)"


subsection \<open>The resolver, for types\<close>







subsection \<open>Addresses in the frame\<close>









subsection \<open>Looking a variable up by name\<close>








subsection \<open>\<^verbatim>\<open>VariableExpression\<close>\<close>




subsection \<open>\<^verbatim>\<open>Callable.Emit\<close>\<close>

text \<open>
  The loop over the locals in the prologue. Without an initial value it reserves
  \<^verbatim>\<open>add_sp(local.GetType().GetSize())\<close>. With one it runs
  \<^verbatim>\<open>for _ in local.GetType().GetSize(): emitter.push(value)\<close>, which asks an
  \<^verbatim>\<open>int\<close> for an iterator: \<^verbatim>\<open>TypeError\<close>.
\<close>

fun emit_locals :: "Local list \<Rightarrow> emitter \<Rightarrow> error + emitter" where
  "emit_locals [] em = Inr em"
| "emit_locals (l # ls) em =
     (case local_initial l of
        None \<Rightarrow>
          (case ref_GetSize (local_type l) of
             Inl e \<Rightarrow> Inl e
           | Inr n \<Rightarrow> emit_locals ls (add_sp n em))
      | Some v \<Rightarrow>
          (case ref_GetSize (local_type l) of
             Inl e \<Rightarrow> Inl e
           | Inr n \<Rightarrow> Inl TypeError))"

text \<open>
  \<^verbatim>\<open>for statement in self.GetBody(): statement.Emit(emitter, self)\<close>. The method
  \<^verbatim>\<open>Emit\<close> of the statement classes is the parameter \<open>statement_Emit\<close>.
\<close>

fun emit_statements ::
  "(Statement \<Rightarrow> Callable \<Rightarrow> emitter \<Rightarrow> error + emitter) \<Rightarrow> Statement list \<Rightarrow> Callable \<Rightarrow> emitter
     \<Rightarrow> error + emitter" where
  "emit_statements statement_Emit [] ctx em = Inr em"
| "emit_statements statement_Emit (s # ss) ctx em =
     (case statement_Emit s ctx em of
        Inl e \<Rightarrow> Inl e
      | Inr em' \<Rightarrow> emit_statements statement_Emit ss ctx em')"

text \<open>
  \<^verbatim>\<open>Callable.Emit\<close> (prologue, locals, body, return label, epilogue), and the
  override of \<^verbatim>\<open>InlineBody\<close>, which emits the body only.
\<close>

definition Callable_Emit ::
  "(Statement \<Rightarrow> Callable \<Rightarrow> emitter \<Rightarrow> error + emitter) \<Rightarrow> Callable \<Rightarrow> emitter \<Rightarrow> error + emitter" where
  "Callable_Emit statement_Emit c em =
     (if IsInline c then emit_statements statement_Emit (GetBody c) c em
      else
        (let em1 = snd (mark_label (create_label (Callable_GetName c)) em);
             em2 = st_bp (ld_sp (ld_bp em1))
         in case emit_locals (callable_locals c) em2 of
              Inl e \<Rightarrow> Inl e
            | Inr em3 \<Rightarrow>
                (case emit_statements statement_Emit (GetBody c) c em3 of
                   Inl e \<Rightarrow> Inl e
                 | Inr em4 \<Rightarrow>
                     (let em5 = snd (mark_label
                                      (create_label (''__'' @ Callable_GetName c @ ''__return''))
                                      em4)
                      in Inr (ret (st_bp (st_sp (ld_bp em5))))))))"


text \<open>
  A function with one initialised local, \<^verbatim>\<open>Dim x As Integer = 5\<close>, and the same
  function with the local left uninitialised.
\<close>

definition dim_initialised :: Callable where
  "dim_initialised =
     new_Function ''F'' [] (TypeObj SignedInteger)
       [LocalStatement (Local (TypeObj SignedInteger) ''x'' (Some 5))]"

definition dim_reserved :: Callable where
  "dim_reserved =
     new_Function ''F'' [] (TypeObj SignedInteger)
       [LocalStatement (Local (TypeObj SignedInteger) ''x'' None)]"




section \<open>The expression parser: \<^verbatim>\<open>parse_expression\<close> (compiler.py)\<close>

text \<open>
  The table \<^verbatim>\<open>_operators\<close>: precedence, left-associativity, the template of the
  intrinsic's name, and the number of operands.
\<close>

definition operators :: "(string \<times> int \<times> bool \<times> string \<times> nat) list" where
  "operators =
     [(''+'', 0, False, ''__ADD_TYPE1_TYPE2'', 2),
      (''-'', 0, False, ''__SUB_TYPE1_TYPE2'', 2),
      (''*'', 0, False, ''__MUL_TYPE1_TYPE2'', 2),
      (''/'', 0, False, ''__DIV_TYPE1_TYPE2'', 2),
      (''<<'', 0, False, ''__LSHIFT_TYPE1_TYPE2'', 2),
      (''>>'', 0, False, ''__RSHIFT_TYPE1_TYPE2'', 2),
      (''AND'', 0, False, ''__AND_TYPE1_TYPE2'', 2),
      (''OR'', 0, False, ''__OR_TYPE1_TYPE2'', 2),
      (''XOR'', 0, False, ''__XOR_TYPE1_TYPE2'', 2)]"

text \<open>
  \<^verbatim>\<open>isOperator\<close> compares the upper-cased name; \<^verbatim>\<open>getPrecedence\<close>,
  \<^verbatim>\<open>isLeftAssociative\<close> and the operand count index the table with the name as it
  is written, a \<^verbatim>\<open>KeyError\<close> when it is not a key.
\<close>

definition isOperator :: "string \<Rightarrow> bool" where
  "isOperator name = (upper name = ''AS'' \<or> upper name \<in> set (map fst operators))"

definition getPrecedence :: "string \<Rightarrow> error + int" where
  "getPrecedence name =
     (case map_of operators name of
        None \<Rightarrow> Inl KeyError
      | Some (prec, left, template, argCount) \<Rightarrow> Inr prec)"

definition isLeftAssociative :: "string \<Rightarrow> error + bool" where
  "isLeftAssociative name =
     (case map_of operators name of
        None \<Rightarrow> Inl KeyError
      | Some (prec, left, template, argCount) \<Rightarrow> Inr left)"

definition operandCount :: "string \<Rightarrow> error + nat" where
  "operandCount name =
     (case map_of operators name of
        None \<Rightarrow> Inl KeyError
      | Some (prec, left, template, argCount) \<Rightarrow> Inr argCount)"

subsection \<open>The scanner\<close>

text \<open>
  The character classes of the token regex: \<^verbatim>\<open>\w\<close>, \<^verbatim>\<open>[\w\d\.\*]\<close>,
  \<^verbatim>\<open>[\w\d\.]\<close> and \<^verbatim>\<open>[\+\-\*\/\.]\<close>.
\<close>

definition is_word :: "char \<Rightarrow> bool" where
  "is_word c =
     (c \<in> set ''abcdefghijklmnopqrstuvwxyzABCDEFGHIJKLMNOPQRSTUVWXYZ0123456789_'')"

definition is_word_dot_star :: "char \<Rightarrow> bool" where
  "is_word_dot_star c = (is_word c \<or> c = CHR ''.'' \<or> c = CHR ''*'')"

definition is_word_dot :: "char \<Rightarrow> bool" where
  "is_word_dot c = (is_word c \<or> c = CHR ''.'')"

definition is_operator_char :: "char \<Rightarrow> bool" where
  "is_operator_char c = (c \<in> set ''+-*/.'')"

text \<open>
  \<^verbatim>\<open>re.findall\<close> with the regex
  \<^verbatim>\<open>(?:\w[\w\d\.\*]*\(?)|(?:\-?\d[\w\d\.]*)|(?:\s+)|(?:[\+\-\*\/\.]+|(?:AS))|(?:\()|(?:\))\<close>:
  at each position the first alternative that matches gives the next token, as long as
  its greedy repetitions reach; a character at which none matches is skipped. (The
  second alternative is only reached at a minus sign, a digit being a \<^verbatim>\<open>\w\<close>; the
  alternative \<^verbatim>\<open>AS\<close> is never reached, a letter being a \<^verbatim>\<open>\w\<close>.)
\<close>

function tokens :: "string \<Rightarrow> string list" where
  "tokens [] = []"
| "tokens (c # cs) =
     (if is_word c then
        (let body = takeWhile is_word_dot_star cs;
             rest = dropWhile is_word_dot_star cs
         in if startswith rest ''('' then (c # body @ ''('') # tokens (tl rest)
            else (c # body) # tokens rest)
      else if c = CHR ''-'' \<and> cs \<noteq> [] \<and> is_digit (hd cs) then
        (c # hd cs # takeWhile is_word_dot (tl cs)) # tokens (dropWhile is_word_dot (tl cs))
      else if is_space c then
        (c # takeWhile is_space cs) # tokens (dropWhile is_space cs)
      else if is_operator_char c then
        (c # takeWhile is_operator_char cs) # tokens (dropWhile is_operator_char cs)
      else if c = CHR ''('' then ''('' # tokens cs
      else if c = CHR '')'' then '')'' # tokens cs
      else tokens cs)"
  by pat_completeness auto
termination
proof (relation "measure length")
  show "wf (measure length)" by simp
next
  fix c :: char and cs body rest :: string
  assume "rest = dropWhile is_word_dot_star cs"
  then have "length rest \<le> length cs" by (simp add: length_dropWhile_le)
  then show "(tl rest, c # cs) \<in> measure length" and "(rest, c # cs) \<in> measure length"
    by simp_all
next
  fix c :: char and cs :: string
  have "length (dropWhile is_word_dot (tl cs)) \<le> length (tl cs)" by (rule length_dropWhile_le)
  then show "(dropWhile is_word_dot (tl cs), c # cs) \<in> measure length" by simp
next
  fix c :: char and cs :: string
  have "length (dropWhile is_space cs) \<le> length cs" by (rule length_dropWhile_le)
  then show "(dropWhile is_space cs, c # cs) \<in> measure length" by simp
next
  fix c :: char and cs :: string
  have "length (dropWhile is_operator_char cs) \<le> length cs" by (rule length_dropWhile_le)
  then show "(dropWhile is_operator_char cs, c # cs) \<in> measure length" by simp
qed simp_all

declare tokens.simps [simp del]

subsection \<open>From tokens to reverse Polish notation\<close>

text \<open>
  The lists \<^verbatim>\<open>queue\<close> and \<^verbatim>\<open>stack\<close> are Python lists: \<^verbatim>\<open>append\<close> adds at the
  end, \<^verbatim>\<open>stack[len(stack) - 1]\<close> is \<open>last\<close> and \<^verbatim>\<open>pop()\<close> leaves \<open>butlast\<close>.

  The \<^verbatim>\<open>while\<close> loop of an operator token. Its condition reads the table for the top
  of the stack and then for the token, so it can raise \<^verbatim>\<open>KeyError\<close>.
\<close>

function pop_operators :: "string \<Rightarrow> string list \<Rightarrow> string list \<Rightarrow> error + string list \<times> string list" where
  "pop_operators token queue stack =
     (if length stack > 0 \<and> last stack \<noteq> ''('' then
        (case getPrecedence (last stack) of
           Inl e \<Rightarrow> Inl e
         | Inr p_top \<Rightarrow>
             (case getPrecedence token of
                Inl e \<Rightarrow> Inl e
              | Inr p_token \<Rightarrow>
                  if p_top > p_token then pop_operators token (queue @ [last stack]) (butlast stack)
                  else
                    (case isLeftAssociative token of
                       Inl e \<Rightarrow> Inl e
                     | Inr left \<Rightarrow>
                         if left \<and> p_top = p_token
                         then pop_operators token (queue @ [last stack]) (butlast stack)
                         else Inr (queue, stack))))
      else Inr (queue, stack))"
  by pat_completeness auto
termination
  by (relation "measure (\<lambda>(token, queue, stack). length stack)") simp_all

declare pop_operators.simps [simp del]

text \<open>
  The \<^verbatim>\<open>while stack[len(stack) - 1] != "("\<close> loop of a closing parenthesis; on an
  empty stack the index is out of range.
\<close>

function pop_to_parenthesis :: "string list \<Rightarrow> string list \<Rightarrow> error + string list \<times> string list" where
  "pop_to_parenthesis queue stack =
     (if stack = [] then Inl IndexError
      else if last stack \<noteq> ''('' then pop_to_parenthesis (queue @ [last stack]) (butlast stack)
      else Inr (queue, stack))"
  by pat_completeness auto
termination
  by (relation "measure (\<lambda>(queue, stack). length stack)") simp_all

declare pop_to_parenthesis.simps [simp del]

text \<open>The body of the first loop, \<^verbatim>\<open>for token in tokens\<close>, on the pair of queue and stack.\<close>

definition shunt :: "string \<Rightarrow> string list \<times> string list \<Rightarrow> error + string list \<times> string list" where
  "shunt token qs =
     (let queue = fst qs; stack = snd qs in
      if list_all is_space token \<and> token \<noteq> [] then Inr (queue, stack)
      else if isOperator token then
        (case pop_operators token queue stack of
           Inl e \<Rightarrow> Inl e
         | Inr (queue', stack') \<Rightarrow> Inr (queue', stack' @ [token]))
      else if length token > 1 \<and> endswith token ''('' then
        Inr (queue @ ['')''], stack @ [token, ''(''])
      else if token = ''('' then Inr (queue, stack @ [''(''])
      else if token = '')'' then
        (if length stack = 0 then Inl (Exception ''Missing \"(\".'')
         else
           (case pop_to_parenthesis queue stack of
              Inl e \<Rightarrow> Inl e
            | Inr (queue', stack') \<Rightarrow>
                (let stack'' = butlast stack' in
                 if length stack'' > 0 \<and> length (last stack'') > 0 \<and> endswith (last stack'') ''(''
                 then Inr (queue' @ [last stack''], butlast stack'')
                 else Inr (queue', stack''))))
      else Inr (queue @ [token], stack))"

fun shunt_all :: "string list \<Rightarrow> string list \<times> string list \<Rightarrow> error + string list \<times> string list" where
  "shunt_all [] qs = Inr qs"
| "shunt_all (t # ts) qs =
     (case shunt t qs of
        Inl e \<Rightarrow> Inl e
      | Inr qs' \<Rightarrow> shunt_all ts qs')"

text \<open>
  \<^verbatim>\<open>while len(stack) > 0\<close>: what is left on the stack goes to the queue, top first;
  an open parenthesis among it is an error.
\<close>

definition drain :: "string list \<times> string list \<Rightarrow> error + string list" where
  "drain qs =
     (if ''('' \<in> set (snd qs) then Inl (Exception ''Missing \")\".'')
      else Inr (fst qs @ rev (snd qs)))"

subsection \<open>From reverse Polish notation to the tree\<close>

text \<open>
  The arguments of a call: what lies on the operand stack p_top the last sentinel, which
  is removed with them.
\<close>

definition call_arguments :: "Expression list \<Rightarrow> error + Expression list \<times> Expression list" where
  "call_arguments stack =
     (let args = rev (takeWhile (\<lambda>x. x \<noteq> Sentinel) (rev stack)) in
      if length stack = 0 then Inl (Exception ''Invalid call expression.'')
      else if length args = length stack then Inl (Exception ''Missing argument list terminator.'')
      else Inr (take (length stack - length args - 1) stack, args))"

text \<open>
  The body of the second loop, \<^verbatim>\<open>for token in queue\<close>, on the operand stack. (For
  \<^verbatim>\<open>AS\<close> the source asks whether the popped operand is a \<^verbatim>\<open>VariableExpression\<close> and
  takes its name; the loop itself only ever makes such nodes from a token, so with a name
  as target.)
\<close>

definition build :: "string \<Rightarrow> Expression list \<Rightarrow> error + Expression list" where
  "build token stack =
     (if token = '')'' then Inr (stack @ [Sentinel])
      else if isOperator token then
        (if upper token = ''AS'' then
           (if length stack < 1
            then Inl (Exception (''Expected 2 operands for \"'' @ token @ ''\" operator.''))
            else if length stack < 2 then Inl IndexError
            else
              (case last stack of
                 VariableExpression (TargetName name) \<Rightarrow>
                   Inr (butlast (butlast stack) @ [CastExpression (TypeName name) (last (butlast stack)) None])
               | _ \<Rightarrow> Inl (Exception ''Expected type name for second operand of \"AS\".'')))
         else
           (case operandCount token of
              Inl e \<Rightarrow> Inl e
            | Inr argCount \<Rightarrow>
                if argCount = 1 then
                  (if length stack < 1
                   then Inl (Exception (''Expected 1 operand for \"'' @ token @ ''\" operator.''))
                   else Inr (butlast stack @ [UnaryOperandExpression token (last stack) None]))
                else if argCount = 2 then
                  (if length stack < 2
                   then Inl (Exception (''Expected 2 operands for \"'' @ token @ ''\" operator.''))
                   else Inr (butlast (butlast stack)
                             @ [BinaryOperandExpression token (last (butlast stack)) (last stack) None]))
                else Inr stack))
      else if endswith token ''('' \<and> length token > 1 then
        (case call_arguments stack of
           Inl e \<Rightarrow> Inl e
         | Inr (stack', args) \<Rightarrow> Inr (stack' @ [CallExpression (FunctionName (butlast token)) args]))
      else
        (case parse_value token of
           Inr v \<Rightarrow> Inr (stack @ [ConstantExpression v (TypeName ''Integer'')])
         | Inl e \<Rightarrow> Inr (stack @ [VariableExpression (TargetName token)])))"

fun build_all :: "string list \<Rightarrow> Expression list \<Rightarrow> error + Expression list" where
  "build_all [] stack = Inr stack"
| "build_all (t # ts) stack =
     (case build t stack of
        Inl e \<Rightarrow> Inl e
      | Inr stack' \<Rightarrow> build_all ts stack')"

definition parse_expression :: "string \<Rightarrow> error + Expression" where
  "parse_expression line =
     (case shunt_all (tokens line) ([], []) of
        Inl e \<Rightarrow> Inl e
      | Inr qs \<Rightarrow>
          (case drain qs of
             Inl e \<Rightarrow> Inl e
           | Inr queue \<Rightarrow>
               (case build_all queue [] of
                  Inl e \<Rightarrow> Inl e
                | Inr stack \<Rightarrow>
                    if length stack \<noteq> 1 then Inl (Exception ''Expressions must produce one value.'')
                    else Inr (stack ! 0))))"


text \<open>An identifier, \<^verbatim>\<open>\w[\w\d]*\<close>: one or more word characters.\<close>

definition is_identifier :: "string \<Rightarrow> bool" where
  "is_identifier s = (s \<noteq> [] \<and> list_all is_word s)"

section \<open>Resolving expressions (compiler.py)\<close>


subsection \<open>Result types and the names of operations\<close>











subsection \<open>Resolving expressions and statements\<close>


text \<open>
  \<^verbatim>\<open>Resolve\<close> of an expression returns nothing and changes the expression and the
  resolver's list of types; here it returns both. The first argument bounds the depth of
  the calls, and \<open>None\<close> is the answer when the bound is reached.
\<close>









section \<open>The peephole optimizer (emitters/urcl.py)\<close>

text \<open>
  An instruction is the list of its tokens. A value of the virtual stack or of a virtual
  register is \<^verbatim>\<open>Union[str, int, None]\<close>.
\<close>

type_synonym inst = "string list"

datatype reg_value = NoValue | IntValue int | StrValue string

text \<open>\<^verbatim>\<open>inst[j]\<close> for \<open>j \<ge> 0\<close>, and \<^verbatim>\<open>insts.pop(k)\<close>.\<close>

definition operand :: "inst \<Rightarrow> nat \<Rightarrow> error + string" where
  "operand inst j = (if j < length inst then Inr (inst ! j) else Inl IndexError)"

definition pop_at :: "nat \<Rightarrow> 'a list \<Rightarrow> 'a list" where
  "pop_at k xs = take k xs @ drop (Suc k) xs"

text \<open>
  The regexes of the optimizers, each used as \<^verbatim>\<open>re.match(f"^{regex}$", mnemonic)\<close>:
  a literal such as \<^verbatim>\<open>PSH\<close>; \<^verbatim>\<open>\w.*\<close>; \<^verbatim>\<open>\..*\<close>; \<^verbatim>\<open>//.*\<close>; and
  \<^verbatim>\<open>(ADD)|(SUB)\<close>, which between \<^verbatim>\<open>^\<close> and \<^verbatim>\<open>$\<close> reads as "begins with ADD, or
  is SUB". The dot matches no newline, and \<^verbatim>\<open>$\<close> also matches before a final one.
\<close>

definition matches_literal :: "string \<Rightarrow> string \<Rightarrow> bool" where
  "matches_literal lit s = (s = lit \<or> s = lit @ [CHR 0x0A])"

definition no_newline_to_end :: "string \<Rightarrow> bool" where
  "no_newline_to_end r =
     (CHR 0x0A \<notin> set (if r \<noteq> [] \<and> last r = CHR 0x0A then butlast r else r))"

definition matches_word_any :: "string \<Rightarrow> bool" where
  "matches_word_any s = (s \<noteq> [] \<and> is_word (hd s) \<and> no_newline_to_end (tl s))"

definition matches_dot_any :: "string \<Rightarrow> bool" where
  "matches_dot_any s = (s \<noteq> [] \<and> hd s = CHR ''.'' \<and> no_newline_to_end (tl s))"

definition matches_comment :: "string \<Rightarrow> bool" where
  "matches_comment s = (startswith s ''//'' \<and> no_newline_to_end (drop 2 s))"

definition matches_add_sub :: "string \<Rightarrow> bool" where
  "matches_add_sub s = (startswith s ''ADD'' \<or> matches_literal ''SUB'' s)"

text \<open>
  \<^verbatim>\<open>is_readonly_reg_instruction\<close>. Its regex
  \<^verbatim>\<open>(B(R[ELGZ])|([LG]E)|(N[EZ]))|(JMP)|(CAL)|(PSH)|(STR)\<close> is matched at the start of
  the upper-cased mnemonic only, and its first group is the alternation of
  \<^verbatim>\<open>B(R[ELGZ])\<close>, \<^verbatim>\<open>[LG]E\<close> and \<^verbatim>\<open>N[EZ]\<close>.
\<close>

definition readonly_regex :: "string \<Rightarrow> bool" where
  "readonly_regex m =
     (list_ex (startswith m)
        [''BRE'', ''BRL'', ''BRG'', ''BRZ'', ''LE'', ''GE'', ''NE'', ''NZ'',
         ''JMP'', ''CAL'', ''PSH'', ''STR''])"

definition is_readonly_reg_instruction :: "inst \<Rightarrow> error + bool" where
  "is_readonly_reg_instruction inst =
     and_then (operand inst 0)
       (\<lambda>m. Inr (startswith m ''.'' \<or> startswith m ''//'' \<or> readonly_regex (upper m)))"

text \<open>\<^verbatim>\<open>get_constant_operand\<close> on a token: \<^verbatim>\<open>int(operand)\<close>, or \<^verbatim>\<open>None\<close> when that raises.\<close>

definition get_constant_operand :: "string \<Rightarrow> int option" where
  "get_constant_operand x = (case py_int 10 x of Inr v \<Rightarrow> Some v | Inl e \<Rightarrow> None)"

subsection \<open>The stack pass\<close>

text \<open>
  The state of the pass: the instruction list, the dictionary \<^verbatim>\<open>registers\<close> and the
  virtual \<^verbatim>\<open>stack\<close> (a Python list: the top is its last element).
\<close>

record vstate =
  v_insts :: "inst list"
  v_registers :: "string \<rightharpoonup> reg_value"
  v_stack :: "reg_value list"

definition get_reg :: "(string \<rightharpoonup> reg_value) \<Rightarrow> string \<Rightarrow> reg_value" where
  "get_reg registers name =
     (if upper name = ''R0'' then IntValue 0
      else (case registers (upper name) of Some v \<Rightarrow> v | None \<Rightarrow> NoValue))"

definition set_reg :: "(string \<rightharpoonup> reg_value) \<Rightarrow> string \<Rightarrow> reg_value \<Rightarrow> (string \<rightharpoonup> reg_value)" where
  "set_reg registers name v =
     (if upper name \<noteq> ''R0'' then registers(upper name \<mapsto> v) else registers)"

text \<open>
  \<^verbatim>\<open>PushStackOptimizer\<close>. A literal that \<^verbatim>\<open>parse_value\<close> accepts is recorded and the
  instruction becomes \<^verbatim>\<open>nop\<close>. Otherwise (the \<^verbatim>\<open>except\<close> branch, for a token that is
  a \<^verbatim>\<open>str\<close>) the contents of the register, or the token itself, is recorded, and the
  instruction stays.
\<close>

definition PushStackOptimizer :: "nat \<Rightarrow> vstate \<Rightarrow> error + vstate" where
  "PushStackOptimizer i st =
     and_then (operand (v_insts st ! i) 1)
       (\<lambda>x. case parse_value x of
               Inr v \<Rightarrow>
                 Inr (st\<lparr>v_stack := v_stack st @ [IntValue v],
                         v_insts := (v_insts st)[i := [''nop'']]\<rparr>)
             | Inl e \<Rightarrow>
                 if startswith (upper x) ''R'' \<or> upper x = ''SP''
                 then Inr (st\<lparr>v_stack := v_stack st @ [get_reg (v_registers st) x]\<rparr>)
                 else Inr (st\<lparr>v_stack := v_stack st @ [StrValue x]\<rparr>))"

definition PopStackOptimizer :: "nat \<Rightarrow> vstate \<Rightarrow> error + vstate" where
  "PopStackOptimizer i st =
     (let val = (if length (v_stack st) > 0 then last (v_stack st) else NoValue);
          st0 = st\<lparr>v_stack := butlast (v_stack st)\<rparr>
      in and_then (operand (v_insts st ! i) 1)
           (\<lambda>r. let st1 =
                       (if get_reg (v_registers st0) r = val \<and> val \<noteq> NoValue
                        then st0\<lparr>v_insts := (v_insts st0)[i := [''pop'', ''R0'']]\<rparr>
                        else st0\<lparr>v_registers := set_reg (v_registers st0) r val\<rparr>)
                 in Inr (case val of
                           IntValue n \<Rightarrow> st1\<lparr>v_insts := (v_insts st1)[i := [''nop'']]\<rparr>
                         | _ \<Rightarrow> st1)))"

text \<open>
  \<^verbatim>\<open>GeneralStackOptimizer\<close>. First the operands from position \<open>first\<close> on are
  replaced by what is known of them; then the registers and, for a write to
  \<^verbatim>\<open>SP\<close>, the virtual stack follow the instruction.
\<close>

definition substitute_operands :: "(string \<rightharpoonup> reg_value) \<Rightarrow> nat \<Rightarrow> inst \<Rightarrow> inst" where
  "substitute_operands registers first inst =
     map (\<lambda>(j, x).
            if j < first then x
            else (case get_reg registers x of
                    IntValue v \<Rightarrow> str v
                  | StrValue s \<Rightarrow> if s = ''BP'' then ''R3'' else x
                  | NoValue \<Rightarrow> x))
       (enumerate 0 inst)"

definition bad_modification :: "error + 'a" where
  "bad_modification = Inl (RuntimeError ''This type of stack modification is not allowed.'')"

definition underflow :: "error + 'a" where
  "underflow = Inl (RuntimeError ''Virtual stack underflow.'')"

definition sp_modification :: "inst \<Rightarrow> reg_value list \<Rightarrow> error + reg_value list" where
  "sp_modification inst stack =
     (if length inst = 4 \<and> upper (inst ! 2) = ''SP'' \<and> get_constant_operand (inst ! 3) \<noteq> None then
        (case get_constant_operand (inst ! 3) of
           None \<Rightarrow> bad_modification
         | Some k \<Rightarrow>
             if upper (inst ! 0) = ''ADD'' then
               (if k > int (length stack) then underflow
                else Inr (take (length stack - nat k) stack))
             else if upper (inst ! 0) = ''SUB'' then Inr (stack @ replicate (nat k) NoValue)
             else bad_modification)
      else if length inst = 4 \<and> upper (inst ! 2) = ''R3'' \<and> get_constant_operand (inst ! 3) \<noteq> None then
        (case get_constant_operand (inst ! 3) of
           None \<Rightarrow> bad_modification
         | Some k \<Rightarrow>
             if upper (inst ! 0) = ''SUB'' then
               (if k + 1 < 0 then underflow else Inr (take (nat (k + 1)) stack))
             else bad_modification)
      else bad_modification)"

definition GeneralStackOptimizer :: "nat \<Rightarrow> vstate \<Rightarrow> error + vstate" where
  "GeneralStackOptimizer i st =
     and_then (is_readonly_reg_instruction (v_insts st ! i))
       (\<lambda>registersReadOnly.
          let inst = substitute_operands (v_registers st) (if registersReadOnly then 1 else 2)
                       (v_insts st ! i);
              st1 = st\<lparr>v_insts := (v_insts st)[i := inst]\<rparr>
          in if length inst > 1 then
               (if upper (inst ! 0) = ''CAL'' then Inr (st1\<lparr>v_registers := Map.empty\<rparr>)
                else if \<not> registersReadOnly then
                  and_then (if inst ! 1 = ''SP'' then sp_modification inst (v_stack st1)
                            else Inr (v_stack st1))
                    (\<lambda>stack'. Inr (st1\<lparr>v_stack := stack',
                                        v_registers := set_reg (v_registers st1) (inst ! 1) NoValue\<rparr>))
                else Inr st1)
             else if upper (inst ! 0) = ''RET''
               then Inr (st1\<lparr>v_registers := [''SP'' \<mapsto> StrValue ''BP'']\<rparr>)
             else Inr st1)"

definition StackVerificationOptimizer :: "nat \<Rightarrow> vstate \<Rightarrow> error + vstate" where
  "StackVerificationOptimizer i st =
     (if length (v_stack st) \<noteq> 0 then Inl (RuntimeError ''Stack must be empty before returning.'')
      else Inr st)"

subsection \<open>The optimizers of an emitter\<close>

datatype optimizer =
    PushStack
  | PopStack
  | GeneralStack
  | StackVerification
  | PushFollowedByPop
  | RepeatedAddAndSubtract
  | OverwrittenResult
  | JumpNext
  | VoidMove
  | Comment
  | Label

text \<open>The default of the constructor of \<^verbatim>\<open>URCLEmitter\<close>, in its order.\<close>

definition default_optimizers :: "optimizer list" where
  "default_optimizers =
     [PushStack, PopStack, GeneralStack, StackVerification, PushFollowedByPop,
      RepeatedAddAndSubtract, OverwrittenResult, JumpNext, VoidMove, Label]"

fun is_StackOptimizer :: "optimizer \<Rightarrow> bool" where
  "is_StackOptimizer PushStack = True"
| "is_StackOptimizer PopStack = True"
| "is_StackOptimizer GeneralStack = True"
| "is_StackOptimizer StackVerification = True"
| "is_StackOptimizer _ = False"

fun is_PairOptimizer :: "optimizer \<Rightarrow> bool" where
  "is_PairOptimizer PushFollowedByPop = True"
| "is_PairOptimizer RepeatedAddAndSubtract = True"
| "is_PairOptimizer OverwrittenResult = True"
| "is_PairOptimizer JumpNext = True"
| "is_PairOptimizer _ = False"

fun is_MonoOptimizer :: "optimizer \<Rightarrow> bool" where
  "is_MonoOptimizer VoidMove = True"
| "is_MonoOptimizer Comment = True"
| "is_MonoOptimizer _ = False"

fun is_CodeOptimizer :: "optimizer \<Rightarrow> bool" where
  "is_CodeOptimizer Label = True"
| "is_CodeOptimizer _ = False"

text \<open>\<^verbatim>\<open>get_regex\<close> of the stack and mono optimizers, as a test of the upper-cased mnemonic.\<close>

fun get_regex :: "optimizer \<Rightarrow> string \<Rightarrow> bool" where
  "get_regex PushStack m = matches_literal ''PSH'' m"
| "get_regex PopStack m = matches_literal ''POP'' m"
| "get_regex GeneralStack m = matches_word_any m"
| "get_regex StackVerification m = matches_literal ''RET'' m"
| "get_regex VoidMove m = matches_literal ''MOV'' m"
| "get_regex Comment m = matches_comment m"
| "get_regex _ m = False"

fun stack_optimize :: "optimizer \<Rightarrow> nat \<Rightarrow> vstate \<Rightarrow> error + vstate" where
  "stack_optimize PushStack i st = PushStackOptimizer i st"
| "stack_optimize PopStack i st = PopStackOptimizer i st"
| "stack_optimize GeneralStack i st = GeneralStackOptimizer i st"
| "stack_optimize StackVerification i st = StackVerificationOptimizer i st"
| "stack_optimize _ i st = Inr st"

text \<open>
  The inner loop of the stack pass: the first stack optimizer of the list whose regex
  matches the mnemonic of instruction \<open>i\<close> runs, and the loop breaks.
\<close>

fun stack_step :: "optimizer list \<Rightarrow> nat \<Rightarrow> vstate \<Rightarrow> error + vstate" where
  "stack_step [] i st = Inr st"
| "stack_step (opt # opts) i st =
     (if is_StackOptimizer opt then
        and_then (operand (v_insts st ! i) 0)
          (\<lambda>m. if get_regex opt (upper m) then stack_optimize opt i st
                else stack_step opts i st)
      else stack_step opts i st)"

text \<open>\<^verbatim>\<open>for i in range(len(self._insts))\<close>, over the list of the indices.\<close>

fun stack_pass :: "optimizer list \<Rightarrow> nat list \<Rightarrow> vstate \<Rightarrow> error + vstate" where
  "stack_pass opts [] st = Inr st"
| "stack_pass opts (i # is) st =
     (case stack_step opts i st of
        Inl e \<Rightarrow> Inl e
      | Inr st' \<Rightarrow> stack_pass opts is st')"

definition initial_vstate :: "inst list \<Rightarrow> vstate" where
  "initial_vstate is =
     \<lparr>v_insts = is, v_registers = [''SP'' \<mapsto> StrValue ''BP''], v_stack = []\<rparr>"

subsection \<open>The pair and mono optimizers\<close>

text \<open>
  \<^verbatim>\<open>_next(index, allowLabels)\<close>: the next instruction that is no label (unless labels
  are allowed), no comment and no \<^verbatim>\<open>nop\<close>.
\<close>

fun find_next :: "bool \<Rightarrow> inst list \<Rightarrow> nat \<Rightarrow> error + nat option" where
  "find_next allowLabels [] k = Inr None"
| "find_next allowLabels (inst # rest) k =
     and_then (operand inst 0)
       (\<lambda>m. if (startswith m ''.'' \<and> \<not> allowLabels) \<or> startswith m ''//'' \<or> upper m = ''NOP''
             then find_next allowLabels rest (Suc k)
             else Inr (Some k))"

definition next_index :: "inst list \<Rightarrow> nat \<Rightarrow> bool \<Rightarrow> error + nat option" where
  "next_index is index allowLabels = find_next allowLabels (drop (index + 1) is) (index + 1)"

fun get_regex_current :: "optimizer \<Rightarrow> string \<Rightarrow> bool" where
  "get_regex_current PushFollowedByPop m = matches_literal ''PSH'' m"
| "get_regex_current RepeatedAddAndSubtract m = matches_add_sub m"
| "get_regex_current OverwrittenResult m = matches_word_any m"
| "get_regex_current JumpNext m = matches_literal ''JMP'' m"
| "get_regex_current _ m = False"

fun get_regex_next :: "optimizer \<Rightarrow> string \<Rightarrow> bool" where
  "get_regex_next PushFollowedByPop m = matches_literal ''POP'' m"
| "get_regex_next RepeatedAddAndSubtract m = matches_add_sub m"
| "get_regex_next OverwrittenResult m = matches_word_any m"
| "get_regex_next JumpNext m = matches_dot_any m"
| "get_regex_next _ m = False"

fun get_allow_labels_next :: "optimizer \<Rightarrow> bool" where
  "get_allow_labels_next JumpNext = True"
| "get_allow_labels_next _ = False"

definition PushFollowedByPopOptimizer :: "nat \<Rightarrow> nat \<Rightarrow> inst list \<Rightarrow> error + bool \<times> inst list" where
  "PushFollowedByPopOptimizer cur nxt is =
     and_then (operand (is ! nxt) 1)
       (\<lambda>y. and_then (operand (is ! cur) 1)
          (\<lambda>x. Inr (True,
                     pop_at cur (if y = x then pop_at nxt is else is[nxt := [''mov'', y, x]]))))"

definition RepeatedAddAndSubtractOptimizer :: "nat \<Rightarrow> nat \<Rightarrow> inst list \<Rightarrow> error + bool \<times> inst list" where
  "RepeatedAddAndSubtractOptimizer cur nxt is =
     and_then (operand (is ! cur) 3)
       (\<lambda>c3. case get_constant_operand c3 of
                None \<Rightarrow> Inr (False, is)
              | Some a0 \<Rightarrow>
                  and_then (operand (is ! nxt) 3)
                    (\<lambda>n3. case get_constant_operand n3 of
                             None \<Rightarrow> Inr (False, is)
                           | Some b0 \<Rightarrow>
                               if (is ! cur) ! 1 = (is ! nxt) ! 2 \<and> (is ! cur) ! 1 = (is ! nxt) ! 1 then
                                 (let a = (if upper ((is ! cur) ! 0) = ''SUB'' then - a0 else a0);
                                      b = (if upper ((is ! nxt) ! 0) = ''SUB'' then - b0 else b0);
                                      v = a + b;
                                      merged =
                                        (if v < 0 then [''sub'', (is ! nxt) ! 1, (is ! cur) ! 2, str (- v)]
                                         else if v > 0 then [''add'', (is ! nxt) ! 1, (is ! cur) ! 2, str v]
                                         else [''mov'', (is ! nxt) ! 1, (is ! cur) ! 2])
                                  in Inr (True, pop_at nxt (is[cur := merged])))
                               else Inr (False, is)))"

definition OverwrittenResultOptimizer :: "nat \<Rightarrow> nat \<Rightarrow> inst list \<Rightarrow> error + bool \<times> inst list" where
  "OverwrittenResultOptimizer cur nxt is =
     and_then (is_readonly_reg_instruction (is ! cur))
       (\<lambda>rc. if rc then Inr (False, is)
              else and_then (is_readonly_reg_instruction (is ! nxt))
                     (\<lambda>rn. if rn then Inr (False, is)
                            else if length (is ! cur) > 1 \<and> length (is ! nxt) > 1
                                    \<and> (is ! cur) ! 1 = (is ! nxt) ! 1
                              then (if (is ! cur) ! 1 \<in> set (drop 2 (is ! nxt)) then Inr (False, is)
                                    else Inr (True, pop_at cur is))
                            else Inr (False, is)))"

definition JumpNextOptimizer :: "nat \<Rightarrow> nat \<Rightarrow> inst list \<Rightarrow> error + bool \<times> inst list" where
  "JumpNextOptimizer cur nxt is =
     and_then (operand (is ! cur) 1)
       (\<lambda>t. and_then (operand (is ! nxt) 0)
          (\<lambda>l. if t = l then Inr (True, pop_at cur is) else Inr (False, is)))"

definition VoidMoveOptimizer :: "nat \<Rightarrow> inst list \<Rightarrow> error + bool \<times> inst list" where
  "VoidMoveOptimizer i is =
     and_then (operand (is ! i) 1)
       (\<lambda>d. and_then (operand (is ! i) 2)
          (\<lambda>s. if d = s \<or> d = ''R0'' then Inr (True, pop_at i is) else Inr (False, is)))"

definition CommentOptimizer :: "nat \<Rightarrow> inst list \<Rightarrow> error + bool \<times> inst list" where
  "CommentOptimizer i is = Inr (True, pop_at i is)"

fun pair_optimize :: "optimizer \<Rightarrow> nat \<Rightarrow> nat \<Rightarrow> inst list \<Rightarrow> error + bool \<times> inst list" where
  "pair_optimize PushFollowedByPop cur nxt is = PushFollowedByPopOptimizer cur nxt is"
| "pair_optimize RepeatedAddAndSubtract cur nxt is = RepeatedAddAndSubtractOptimizer cur nxt is"
| "pair_optimize OverwrittenResult cur nxt is = OverwrittenResultOptimizer cur nxt is"
| "pair_optimize JumpNext cur nxt is = JumpNextOptimizer cur nxt is"
| "pair_optimize _ cur nxt is = Inr (False, is)"

fun mono_optimize :: "optimizer \<Rightarrow> nat \<Rightarrow> inst list \<Rightarrow> error + bool \<times> inst list" where
  "mono_optimize VoidMove i is = VoidMoveOptimizer i is"
| "mono_optimize Comment i is = CommentOptimizer i is"
| "mono_optimize _ i is = Inr (False, is)"

text \<open>
  The \<^verbatim>\<open>for optimizer in self._optimizers\<close> loop inside the second \<^verbatim>\<open>while\<close>, at
  instruction \<open>i\<close>: it breaks with \<^verbatim>\<open>rerun = True\<close> at the first optimizer that
  reports a change.
\<close>

fun sweep :: "optimizer list \<Rightarrow> nat \<Rightarrow> inst list \<Rightarrow> error + bool \<times> inst list" where
  "sweep [] i is = Inr (False, is)"
| "sweep (opt # opts) i is =
     (if is_PairOptimizer opt then
        and_then (next_index is i (get_allow_labels_next opt))
          (\<lambda>n. case n of
                  None \<Rightarrow> sweep opts i is
                | Some nxt \<Rightarrow>
                    and_then (operand (is ! i) 0)
                      (\<lambda>mc. if get_regex_current opt (upper mc) then
                               and_then (operand (is ! nxt) 0)
                                 (\<lambda>mn. if get_regex_next opt (upper mn) then
                                          and_then (pair_optimize opt i nxt is)
                                            (\<lambda>(changed, is').
                                               if changed then Inr (True, is')
                                               else sweep opts i is)
                                        else sweep opts i is)
                             else sweep opts i is))
      else if is_MonoOptimizer opt then
        and_then (operand (is ! i) 0)
          (\<lambda>m. if get_regex opt (upper m) then
                  and_then (mono_optimize opt i is)
                    (\<lambda>(changed, is'). if changed then Inr (True, is') else sweep opts i is)
                else sweep opts i is)
      else sweep opts i is)"

text \<open>
  \<^verbatim>\<open>while i < len(self._insts)\<close>: back to 0 after a change, on by one otherwise. The
  value \<open>None\<close> stands for a loop that does not end.
\<close>

partial_function (option) pair_loop :: "optimizer list \<Rightarrow> nat \<Rightarrow> inst list \<Rightarrow> (error + inst list) option" where
  "pair_loop opts i is =
     (if i < length is then
        (case sweep opts i is of
           Inl e \<Rightarrow> Some (Inl e)
         | Inr (rerun, is') \<Rightarrow> if rerun then pair_loop opts 0 is' else pair_loop opts (i + 1) is')
      else Some (Inr is))"

declare pair_loop.simps [code]

subsection \<open>The code optimizers\<close>

text \<open>
  \<^verbatim>\<open>LabelOptimizer\<close>: every instruction that begins with \<^verbatim>\<open>.__\<close> and is named by
  no operand of any instruction is removed; the result tells whether one was.
\<close>

definition LabelOptimizer :: "inst list \<Rightarrow> error + bool \<times> inst list" where
  "LabelOptimizer is =
     (if [] \<in> set is then Inl IndexError
      else
        (let referenced = filter (\<lambda>x. startswith x ''.__'') (concat (map tl is));
             unused = (\<lambda>inst. startswith (hd inst) ''.__'' \<and> hd inst \<notin> set referenced)
         in Inr (list_ex unused is, filter (\<lambda>inst. \<not> unused inst) is)))"

fun code_optimize :: "optimizer list \<Rightarrow> inst list \<Rightarrow> error + bool \<times> inst list" where
  "code_optimize [] is = Inr (False, is)"
| "code_optimize (opt # opts) is =
     (if is_CodeOptimizer opt then
        and_then (LabelOptimizer is)
          (\<lambda>(changed, is').
             and_then (code_optimize opts is') (\<lambda>(rerun, is''). Inr (changed \<or> rerun, is'')))
      else code_optimize opts is)"

partial_function (option) code_loop :: "optimizer list \<Rightarrow> inst list \<Rightarrow> (error + inst list) option" where
  "code_loop opts is =
     (case code_optimize opts is of
        Inl e \<Rightarrow> Some (Inl e)
      | Inr (rerun, is') \<Rightarrow> if rerun then code_loop opts is' else Some (Inr is'))"

declare code_loop.simps [code]

subsection \<open>\<^verbatim>\<open>commit\<close>\<close>

text \<open>The lines written to the stream: every instruction but \<^verbatim>\<open>nop\<close>, its tokens joined by blanks.\<close>

fun write_lines :: "inst list \<Rightarrow> error + string list" where
  "write_lines [] = Inr []"
| "write_lines (inst # rest) =
     and_then (operand inst 0)
       (\<lambda>m. and_then (write_lines rest)
          (\<lambda>lines. Inr (if upper m \<noteq> ''NOP'' then (join '' '' inst @ [CHR 0x0A]) # lines
                         else lines)))"

definition optimized :: "optimizer list \<Rightarrow> inst list \<Rightarrow> (error + inst list) option" where
  "optimized opts is =
     (case stack_pass opts [0..<length is] (initial_vstate is) of
        Inl e \<Rightarrow> Some (Inl e)
      | Inr st \<Rightarrow>
          (case pair_loop opts 0 (v_insts st) of
             None \<Rightarrow> None
           | Some (Inl e) \<Rightarrow> Some (Inl e)
           | Some (Inr is1) \<Rightarrow> code_loop opts is1))"

text \<open>
  \<^verbatim>\<open>commit\<close>: an exception of the optimizer leaves it before anything is written;
  else the result is the text of the output.
\<close>

definition commit_with :: "optimizer list \<Rightarrow> emitter \<Rightarrow> (error + string list) option" where
  "commit_with opts em =
     (if optimize em then
        (case optimized opts (insts em) of
           None \<Rightarrow> None
         | Some (Inl e) \<Rightarrow> Some (Inl e)
         | Some (Inr is) \<Rightarrow> Some (write_lines is))
      else Some (write_lines (insts em)))"

definition commit :: "emitter \<Rightarrow> (error + string list) option" where
  "commit em = commit_with default_optimizers em"

section \<open>Properties of \<^verbatim>\<open>parse_value\<close>\<close>

lemmas text_defs =
  upper_def upper_char_def is_digit_def is_nonzero_digit_def is_hex_upper_def is_octal_def
  is_binary_def is_space_def is_int_space_def int_strip_def startswith_def endswith_def

lemmas value_defs =
  parse_value_def value_regex_def value_group_def py_int_def py_digits_def base_prefix_def
  digit_val_def

text \<open>
  C6. \<^verbatim>\<open>parse_value\<close> on \<^verbatim>\<open>-0x10\<close>, \<^verbatim>\<open>-16\<close>, \<^verbatim>\<open>0b10000\<close> and \<^verbatim>\<open>0o20\<close>:
  only the decimal one returns its integer. The three literals with a lower-case base
  prefix pass the regex (which sees the upper-cased text), fail all three prefix tests
  (which see the original text) and reach \<^verbatim>\<open>int(text)\<close> in base 10, which raises
  \<^verbatim>\<open>ValueError\<close>. With the prefix in upper case the values are the expected ones.
\<close>

theorem parse_value_base_prefix_literals:
  "parse_value ''-0x10'' = Inl ValueError
   \<and> parse_value ''-16'' = Inr (- 16)
   \<and> parse_value ''0b10000'' = Inl ValueError
   \<and> parse_value ''0o20'' = Inl ValueError
   \<and> parse_value ''-0X10'' = Inr (- 16)
   \<and> parse_value ''0B10000'' = Inr 16
   \<and> parse_value ''0O20'' = Inr 16"
  by (simp add: value_defs text_defs Let_def)

text \<open>Facts about decimal digits, shared by the proofs below.\<close>

lemma is_digit_cases:
  "is_digit c \<Longrightarrow> c = CHR ''0'' \<or> c = CHR ''1'' \<or> c = CHR ''2'' \<or> c = CHR ''3'' \<or> c = CHR ''4''
     \<or> c = CHR ''5'' \<or> c = CHR ''6'' \<or> c = CHR ''7'' \<or> c = CHR ''8'' \<or> c = CHR ''9''"
  by (simp add: is_digit_def)

lemma upper_char_digit: "is_digit c \<Longrightarrow> upper_char c = c"
  by (drule is_digit_cases, elim disjE; simp add: upper_char_def)

lemma digit_val_digit: "is_digit c \<Longrightarrow> digit_val c < 10"
  by (drule is_digit_cases, elim disjE; simp add: digit_val_def upper_char_def)

lemma is_digit_not_space: "is_digit c \<Longrightarrow> \<not> is_int_space c"
  by (drule is_digit_cases, elim disjE; simp add: is_int_space_def)

lemma is_nonzero_digit_iff: "is_digit c \<Longrightarrow> is_nonzero_digit c = (c \<noteq> CHR ''0'')"
  by (drule is_digit_cases, elim disjE; simp add: is_nonzero_digit_def)

lemma is_digit_not_special:
  "is_digit c \<Longrightarrow> c \<noteq> CHR ''-'' \<and> c \<noteq> CHR ''X'' \<and> c \<noteq> CHR ''O'' \<and> c \<noteq> CHR ''B'' \<and> c \<noteq> CHR 0x0A"
  by (drule is_digit_cases, elim disjE; simp)

lemma is_digit_not_underscore: "is_digit c \<Longrightarrow> c \<noteq> CHR ''_'' \<and> c \<noteq> CHR ''+''"
  by (drule is_digit_cases, elim disjE; simp)

lemma value_regex_two_digits:
  assumes "is_digit d1" and "is_digit d2"
  shows "value_regex (upper [d1, d2]) = (d1 \<noteq> CHR ''0'')"
  using assms is_digit_not_special[OF assms(1)] is_digit_not_special[OF assms(2)]
  by (simp add: value_regex_def value_group_def upper_def upper_char_digit startswith_def
        is_nonzero_digit_iff Let_def)

lemma py_int_two_digits:
  assumes "is_digit d1" and "is_digit d2"
  shows "py_int 10 [d1, d2] = Inr (int (10 * digit_val d1 + digit_val d2))"
  using assms
  using assms is_digit_not_special[OF assms(1)] is_digit_not_special[OF assms(2)]
    is_digit_not_underscore[OF assms(1)] is_digit_not_underscore[OF assms(2)]
  by (simp add: py_int_def py_digits_def base_prefix_def startswith_def int_strip_def
        is_digit_not_space digit_val_digit Let_def mult.commute)

text \<open>
  C7, as stated: \<^verbatim>\<open>parse_value("12")\<close> fails with "Invalid value.". It does not: the
  alternative \<^verbatim>\<open>[1-9][0-9]+\<close> is one digit from 1 to 9 followed by one or more digits,
  which \<^verbatim>\<open>12\<close> is, and the result is the integer 12.
\<close>

theorem parse_value_two_digits_counterexample:
  "parse_value ''12'' = Inr 12 \<and> parse_value ''12'' \<noteq> Inl (Exception ''Invalid value.'')"
  by (simp add: value_defs text_defs Let_def)

text \<open>
  C7, amended: of the two-digit plain decimal literals, \<^verbatim>\<open>parse_value\<close> rejects with
  "Invalid value." exactly those whose first digit is 0 (\<^verbatim>\<open>00\<close> to \<^verbatim>\<open>09\<close>); every
  other one (\<^verbatim>\<open>10\<close> to \<^verbatim>\<open>99\<close>, so also \<^verbatim>\<open>12\<close>) is accepted and returns its
  decimal value.
\<close>

theorem parse_value_two_digits:
  assumes "is_digit d1" and "is_digit d2"
  shows "parse_value [d1, d2] =
           (if d1 = CHR ''0'' then Inl (Exception ''Invalid value.'')
            else Inr (int (10 * digit_val d1 + digit_val d2)))"
  using is_digit_not_special[OF assms(1)] is_digit_not_special[OF assms(2)]
  by (simp add: parse_value_def value_regex_two_digits[OF assms] py_int_two_digits[OF assms]
        startswith_def Let_def)

theorem parse_value_two_digits_witness:
  "is_digit CHR ''4'' \<and> is_digit CHR ''2'' \<and> parse_value ''42'' = Inr 42
   \<and> is_digit CHR ''0'' \<and> is_digit CHR ''7'' \<and> parse_value ''07'' = Inl (Exception ''Invalid value.'')"
  using parse_value_two_digits [of "CHR ''4''" "CHR ''2''"] parse_value_two_digits [of "CHR ''0''" "CHR ''7''"]
  by (simp add: is_digit_def digit_val_def upper_char_def)

section \<open>The signed operations of the URCL emitter\<close>

lemmas emitter_defs =
  emit_def begin_instruction_def end_instruction_def comment_def URCLEmitter_def str_def
  digit_char_def

text \<open>
  C2, as stated: every signed operation raises not-implemented and emits nothing. For
  \<^verbatim>\<open>mul_s\<close> this fails: on a fresh emitter it returns normally, and the buffer then
  holds the label of the instruction and the four instructions of an unsigned multiply.
\<close>

theorem mul_s_counterexample:
  "mul_s (URCLEmitter False True) =
     Inr \<lparr>current = 1, internal = 0,
          insts = [[''.___urcl___0''], [''pop'', ''R2''], [''pop'', ''R1''],
                   [''mlt'', ''R1'', ''R1'', ''R2''], [''psh'', ''R1'']],
          showIL = False, optimize = True\<rparr>
   \<and> mul_s (URCLEmitter False True) \<noteq> Inl NotImplementedError"
  by (simp add: mul_s_def mul_u_def emitter_defs str_nat.simps)

text \<open>
  C2, amended: \<^verbatim>\<open>div_s\<close>, \<^verbatim>\<open>rem_s\<close>, the signed comparisons \<^verbatim>\<open>cmp_lt_s\<close>,
  \<^verbatim>\<open>cmp_gt_s\<close>, \<^verbatim>\<open>cmp_le_s\<close>, \<^verbatim>\<open>cmp_ge_s\<close> and the signed branches
  \<^verbatim>\<open>br_lt_s\<close>, \<^verbatim>\<open>br_gt_s\<close>, \<^verbatim>\<open>br_le_s\<close>, \<^verbatim>\<open>br_ge_s\<close> raise
  \<^verbatim>\<open>NotImplementedError\<close> in every emitter state and for every target, and so emit
  nothing; \<^verbatim>\<open>mul_s\<close> never raises and emits exactly what \<^verbatim>\<open>mul_u\<close> emits.
\<close>

theorem signed_operations:
  "div_s em = Inl NotImplementedError
   \<and> rem_s em = Inl NotImplementedError
   \<and> cmp_lt_s em = Inl NotImplementedError
   \<and> cmp_gt_s em = Inl NotImplementedError
   \<and> cmp_le_s em = Inl NotImplementedError
   \<and> cmp_ge_s em = Inl NotImplementedError
   \<and> br_lt_s tgt em = Inl NotImplementedError
   \<and> br_gt_s tgt em = Inl NotImplementedError
   \<and> br_le_s tgt em = Inl NotImplementedError
   \<and> br_ge_s tgt em = Inl NotImplementedError
   \<and> mul_s em = Inr (mul_u em)
   \<and> length (insts (mul_u em)) = length (insts em) + (if showIL em then 6 else 5)"
  by (simp add: div_s_def rem_s_def cmp_lt_s_def cmp_gt_s_def cmp_le_s_def cmp_ge_s_def
        br_lt_s_def br_gt_s_def br_le_s_def br_ge_s_def mul_s_def mul_u_def
        emit_def begin_instruction_def end_instruction_def comment_def Let_def
        split: list.split)

section \<open>Sizes and field offsets of structures\<close>



















section \<open>Frame offsets of parameters and of the return slot\<close>














section \<open>Names that no local and no parameter has\<close>









section \<open>Locals in the prologue\<close>

lemma emit_locals_initialised:
  "l \<in> set ls \<Longrightarrow> local_initial l = Some v \<Longrightarrow> \<exists>e. emit_locals ls em = Inl e"
proof (induction ls arbitrary: em)
  case Nil
  then show ?case by simp
next
  case (Cons a ls)
  show ?case
  proof (cases "a = l")
    case True
    then show ?thesis using Cons.prems by (simp split: sum.split)
  next
    case False
    then have "l \<in> set ls" using Cons.prems by simp
    from Cons.IH[OF this Cons.prems(2)] show ?thesis
      by (simp split: option.split sum.split)
  qed
qed

text \<open>
  The half of C3 that holds: locals without initial values, of sizes \<open>ns\<close>, get
  \<^verbatim>\<open>add_sp(size)\<close> each, in order.
\<close>

lemma emit_locals_reserved:
  "\<forall>l \<in> set ls. local_initial l = None \<Longrightarrow>
   map (\<lambda>l. ref_GetSize (local_type l)) ls = map Inr ns \<Longrightarrow>
   emit_locals ls em = Inr (foldl (\<lambda>e n. add_sp n e) em ns)"
proof (induction ls arbitrary: em ns)
  case Nil
  then show ?case by simp
next
  case (Cons a ls)
  from Cons.prems(2) obtain n ms where ns: "ns = n # ms" and n: "ref_GetSize (local_type a) = Inr n"
    and ms: "map (\<lambda>l. ref_GetSize (local_type l)) ls = map Inr ms"
    by (cases ns) auto
  from Cons.prems(1) have "\<forall>l \<in> set ls. local_initial l = None" and a: "local_initial a = None"
    by simp_all
  from Cons.IH[OF this(1) ms] a n ns show ?case by simp
qed

text \<open>
  C3. The claim: a local with an integer initialiser has the value pushed \<open>size\<close>
  times. The code: whenever a callable that is not inline has a local with an
  initialiser, \<^verbatim>\<open>Emit\<close> raises in the prologue, whatever the statements of the body
  emit; nothing is pushed. (The exception is the \<^verbatim>\<open>TypeError\<close> of iterating over an
  \<^verbatim>\<open>int\<close>, unless the type of a local up to that one has no size.)
\<close>

theorem Callable_Emit_initialised_local:
  assumes "\<not> IsInline c" and "l \<in> set (callable_locals c)" and "local_initial l = Some v"
  shows "\<exists>e. Callable_Emit statement_Emit c em = Inl e"
proof -
  from emit_locals_initialised[OF assms(2) assms(3)]
  obtain e where "emit_locals (callable_locals c)
                    (st_bp (ld_sp (ld_bp (snd (mark_label (create_label (Callable_GetName c)) em))))) = Inl e"
    by blast
  then show ?thesis using assms(1) by (simp add: Callable_Emit_def Let_def)
qed

theorem Callable_Emit_initialised_local_witness:
  "\<not> IsInline dim_initialised
   \<and> Local (TypeObj SignedInteger) ''x'' (Some 5) \<in> set (callable_locals dim_initialised)
   \<and> local_initial (Local (TypeObj SignedInteger) ''x'' (Some 5)) = Some 5
   \<and> Callable_Emit (\<lambda>s c e. Inr e) dim_initialised (URCLEmitter False True) = Inl TypeError
   \<and> (\<exists>em. Callable_Emit (\<lambda>s c e. Inr e) dim_reserved (URCLEmitter False True) = Inr em
            \<and> [''sub'', ''SP'', ''SP'', ''1''] \<in> set (insts em))"
proof -
  have a: "\<not> IsInline dim_initialised"
    and b: "Local (TypeObj SignedInteger) ''x'' (Some 5) \<in> set (callable_locals dim_initialised)"
    and c: "local_initial (Local (TypeObj SignedInteger) ''x'' (Some 5)) = Some 5"
    by (simp_all add: dim_initialised_def new_Function_def)
  from Callable_Emit_initialised_local[OF a b c, of "\<lambda>s c e. Inr e" "URCLEmitter False True"]
  have "Callable_Emit (\<lambda>s c e. Inr e) dim_initialised (URCLEmitter False True) = Inl TypeError"
    by (simp add: Callable_Emit_def dim_initialised_def new_Function_def)
  moreover have "Callable_Emit (\<lambda>s c e. Inr e) dim_reserved (URCLEmitter False True) =
    Inr \<lparr>current = 8, internal = 0,
         insts = [[''.F''], [''.___urcl___0''], [''psh'', ''R3''], [''.___urcl___1''],
                  [''psh'', ''SP''], [''.___urcl___2''], [''pop'', ''R3''], [''.___urcl___3''],
                  [''sub'', ''SP'', ''SP'', ''1''], [''.__F__return''], [''.___urcl___4''],
                  [''psh'', ''R3''], [''.___urcl___5''], [''pop'', ''SP''], [''.___urcl___6''],
                  [''pop'', ''R3''], [''.___urcl___7''], [''ret'']],
         showIL = False, optimize = True\<rparr>"
    by code_simp
  ultimately show ?thesis using a b c by simp
qed

section \<open>The shift operators in the scanner\<close>

lemma is_word_cases:
  "is_word c \<Longrightarrow>
     c = CHR ''a'' \<or> c = CHR ''b'' \<or> c = CHR ''c'' \<or> c = CHR ''d'' \<or> c = CHR ''e'' \<or> c = CHR ''f''
   \<or> c = CHR ''g'' \<or> c = CHR ''h'' \<or> c = CHR ''i'' \<or> c = CHR ''j'' \<or> c = CHR ''k'' \<or> c = CHR ''l''
   \<or> c = CHR ''m'' \<or> c = CHR ''n'' \<or> c = CHR ''o'' \<or> c = CHR ''p'' \<or> c = CHR ''q'' \<or> c = CHR ''r''
   \<or> c = CHR ''s'' \<or> c = CHR ''t'' \<or> c = CHR ''u'' \<or> c = CHR ''v'' \<or> c = CHR ''w'' \<or> c = CHR ''x''
   \<or> c = CHR ''y'' \<or> c = CHR ''z''
   \<or> c = CHR ''A'' \<or> c = CHR ''B'' \<or> c = CHR ''C'' \<or> c = CHR ''D'' \<or> c = CHR ''E'' \<or> c = CHR ''F''
   \<or> c = CHR ''G'' \<or> c = CHR ''H'' \<or> c = CHR ''I'' \<or> c = CHR ''J'' \<or> c = CHR ''K'' \<or> c = CHR ''L''
   \<or> c = CHR ''M'' \<or> c = CHR ''N'' \<or> c = CHR ''O'' \<or> c = CHR ''P'' \<or> c = CHR ''Q'' \<or> c = CHR ''R''
   \<or> c = CHR ''S'' \<or> c = CHR ''T'' \<or> c = CHR ''U'' \<or> c = CHR ''V'' \<or> c = CHR ''W'' \<or> c = CHR ''X''
   \<or> c = CHR ''Y'' \<or> c = CHR ''Z''
   \<or> c = CHR ''0'' \<or> c = CHR ''1'' \<or> c = CHR ''2'' \<or> c = CHR ''3'' \<or> c = CHR ''4'' \<or> c = CHR ''5''
   \<or> c = CHR ''6'' \<or> c = CHR ''7'' \<or> c = CHR ''8'' \<or> c = CHR ''9'' \<or> c = CHR ''_''"
  by (simp add: is_word_def)

lemma is_word_not_special:
  "is_word c \<Longrightarrow> \<not> is_space c \<and> c \<noteq> CHR ''('' \<and> c \<noteq> CHR '')''"
  by (drule is_word_cases, elim disjE; simp add: is_space_def)

lemma shift_char_skipped:
  "c = CHR ''<'' \<or> c = CHR ''>'' \<Longrightarrow>
   \<not> is_word c \<and> c \<noteq> CHR ''-'' \<and> \<not> is_space c \<and> \<not> is_operator_char c \<and> c \<noteq> CHR ''('' \<and> c \<noteq> CHR '')''"
  by (elim disjE; simp add: is_word_def is_space_def is_operator_char_def)

lemma space_char:
  "\<not> is_word CHR '' '' \<and> is_space CHR '' '' \<and> \<not> is_word_dot_star CHR '' ''"
  by (simp add: is_word_def is_space_def is_word_dot_star_def)

lemma takeWhile_all: "list_all P xs \<Longrightarrow> \<not> P x \<Longrightarrow> takeWhile P (xs @ x # l) = xs"
  by (induction xs) simp_all

lemma dropWhile_all: "list_all P xs \<Longrightarrow> \<not> P x \<Longrightarrow> dropWhile P (xs @ x # l) = x # l"
  by (induction xs) simp_all

lemma takeWhile_whole: "list_all P xs \<Longrightarrow> takeWhile P xs = xs"
  by (induction xs) simp_all

lemma dropWhile_whole: "list_all P xs \<Longrightarrow> dropWhile P xs = []"
  by (induction xs) simp_all

lemma word_is_word_dot_star: "list_all is_word xs \<Longrightarrow> list_all is_word_dot_star xs"
  by (induction xs) (simp_all add: is_word_dot_star_def)

lemma tokens_identifier: "is_identifier b \<Longrightarrow> tokens b = [b]"
proof -
  assume "is_identifier b"
  then obtain c cs where b: "b = c # cs" and c: "is_word c" and cs: "list_all is_word cs"
    by (cases b) (auto simp add: is_identifier_def)
  from cs have "list_all is_word_dot_star cs" by (rule word_is_word_dot_star)
  then show ?thesis
    using b c by (simp add: tokens.simps takeWhile_whole dropWhile_whole startswith_def Let_def)
qed

lemma tokens_identifier_space:
  "is_identifier a \<Longrightarrow> tokens (a @ CHR '' '' # rest) = a # tokens (CHR '' '' # rest)"
proof -
  assume "is_identifier a"
  then obtain c cs where a: "a = c # cs" and c: "is_word c" and cs: "list_all is_word cs"
    by (cases a) (auto simp add: is_identifier_def)
  from cs have w: "list_all is_word_dot_star cs" by (rule word_is_word_dot_star)
  have ns: "\<not> is_word_dot_star CHR '' ''" using space_char by simp
  show ?thesis
    unfolding a
    using tokens.simps(2)[of c "cs @ CHR '' '' # rest"]
    by (simp add: c takeWhile_all[OF w ns] dropWhile_all[OF w ns] startswith_def Let_def)
qed

lemma tokens_shift:
  assumes b: "is_identifier b" and s: "s = CHR ''<'' \<or> s = CHR ''>''"
  shows "tokens (CHR '' '' # s # s # CHR '' '' # b) = ['' '', '' ''] @ tokens b"
proof -
  from b obtain c cs where bb: "b = c # cs" and c: "is_word c"
    by (cases b) (auto simp add: is_identifier_def)
  have nsp: "\<not> is_space c" using is_word_not_special[OF c] by simp
  have skip: "tokens (s # r) = tokens r" for r
    using shift_char_skipped[OF s] tokens.simps(2)[of s r] by simp
  have sp1: "tokens (CHR '' '' # s # r) = '' '' # tokens (s # r)" for r
    using shift_char_skipped[OF s] space_char tokens.simps(2)[of "CHR '' ''" "s # r"] by simp
  have sp2: "tokens (CHR '' '' # b) = '' '' # tokens b"
    unfolding bb using nsp space_char tokens.simps(2)[of "CHR '' ''" "c # cs"] by simp
  show ?thesis by (simp add: sp1 skip sp2)
qed

lemma tokens_shift_expression:
  assumes "is_identifier a" and "is_identifier b" and "s = CHR ''<'' \<or> s = CHR ''>''"
  shows "tokens (a @ CHR '' '' # s # s # CHR '' '' # b) = [a, '' '', '' '', b]"
  using tokens_identifier_space[OF assms(1)] tokens_shift[OF assms(2,3)] tokens_identifier[OF assms(2)]
  by simp


lemma operators_entry:
  "map_of operators name = Some (prec, left, template, argCount) \<Longrightarrow>
   prec = 0 \<and> \<not> left \<and> argCount = 2"
  by (drule map_of_SomeD) (auto simp add: operators_def)

lemma getPrecedence_zero: "getPrecedence name = Inr p \<Longrightarrow> p = 0"
  by (auto simp add: getPrecedence_def split: option.splits dest: operators_entry)

lemma isLeftAssociative_False: "isLeftAssociative name = Inr l \<Longrightarrow> \<not> l"
  by (auto simp add: isLeftAssociative_def split: option.splits dest: operators_entry)

lemma operandCount_two: "operandCount name = Inr k \<Longrightarrow> k = 2"
  by (auto simp add: operandCount_def split: option.splits dest: operators_entry)

lemma endswith_single: "endswith t [x] \<longleftrightarrow> t \<noteq> [] \<and> last t = x"
  by (cases t rule: rev_cases) (auto simp add: endswith_def)

lemma is_identifier_token:
  assumes "is_identifier t"
  shows "\<not> list_all is_space t" and "\<not> endswith t ''(''" and "t \<noteq> ''(''" and "t \<noteq> '')''"
proof -
  from assms obtain c cs where t: "t = c # cs" and c: "is_word c" and cs: "list_all is_word cs"
    by (cases t) (auto simp add: is_identifier_def)
  show "\<not> list_all is_space t"
    using is_word_not_special[OF c] t by simp
  have "is_word (last t)"
    using assms last_in_set[of t] by (auto simp add: is_identifier_def list_all_iff)
  then show "\<not> endswith t ''(''"
    using is_word_not_special[of "last t"] by (simp add: endswith_single)
  show "t \<noteq> ''(''" "t \<noteq> '')''"
    using is_word_not_special[OF c] t by auto
qed

lemma shunt_space: "shunt '' '' qs = Inr qs"
  by (simp add: shunt_def is_space_def)

lemma shunt_identifier:
  assumes "is_identifier t"
  shows "shunt t (q, s) =
           (if isOperator t then
              (case pop_operators t q s of
                 Inl e \<Rightarrow> Inl e
               | Inr (q', s') \<Rightarrow> Inr (q', s' @ [t]))
            else Inr (q @ [t], s))"
  using is_identifier_token[OF assms] by (simp add: shunt_def Let_def)

lemma pop_operators_empty: "pop_operators t q [] = Inr (q, [])"
  by (simp add: pop_operators.simps)

lemma pop_operators_single:
  assumes "a \<noteq> ''(''"
  shows "(\<exists>e. pop_operators b q [a] = Inl e) \<or> pop_operators b q [a] = Inr (q, [a])"
  using assms pop_operators.simps[of b q "[a]"]
  by (auto split: sum.splits dest: getPrecedence_zero isLeftAssociative_False)

lemma build_operand:
  assumes "is_identifier t" and "\<not> isOperator t"
  shows "\<exists>x. build t st = Inr (st @ [x])"
  using is_identifier_token[OF assms(1)] assms(2)
  by (auto simp add: build_def split: sum.splits)

lemma build_operator_short:
  assumes "isOperator t" and "t \<noteq> '')''" and "length st < 2"
  shows "\<exists>e. build t st = Inl e"
  using assms
  by (auto simp add: build_def split: sum.splits dest: operandCount_two)

lemma parse_shift_tokens:
  assumes a: "is_identifier a" and b: "is_identifier b"
    and toks: "tokens line = [a, '' '', '' '', b]"
  shows "\<exists>e. parse_expression line = Inl e"
proof -
  note na = is_identifier_token[OF a] and nb = is_identifier_token[OF b]
  show ?thesis
  proof (cases "isOperator a")
    case opa: False
    show ?thesis
    proof (cases "isOperator b")
      case opb: False
      have sh: "shunt_all (tokens line) ([], []) = Inr ([a, b], [])"
        by (simp add: toks shunt_identifier[OF a] shunt_identifier[OF b] shunt_space opa opb)
      from build_operand[OF a opa, of "[]"] obtain x where x: "build a [] = Inr [x]" by auto
      from build_operand[OF b opb, of "[x]"] obtain y where y: "build b [x] = Inr [x, y]" by auto
      show ?thesis by (simp add: parse_expression_def sh drain_def x y)
    next
      case opb: True
      have sh: "shunt_all (tokens line) ([], []) = Inr ([a], [b])"
        by (simp add: toks shunt_identifier[OF a] shunt_identifier[OF b] shunt_space opa opb
              pop_operators_empty)
      from build_operand[OF a opa, of "[]"] obtain x where x: "build a [] = Inr [x]" by auto
      from build_operator_short[OF opb nb(4), of "[x]"] obtain e where e: "build b [x] = Inl e" by auto
      show ?thesis using nb(3) by (simp add: parse_expression_def sh drain_def x e)
    qed
  next
    case opa: True
    show ?thesis
    proof (cases "isOperator b")
      case opb: False
      have sh: "shunt_all (tokens line) ([], []) = Inr ([b], [a])"
        by (simp add: toks shunt_identifier[OF a] shunt_identifier[OF b] shunt_space opa opb
              pop_operators_empty)
      from build_operand[OF b opb, of "[]"] obtain x where x: "build b [] = Inr [x]" by auto
      from build_operator_short[OF opa na(4), of "[x]"] obtain e where e: "build a [x] = Inl e" by auto
      show ?thesis using na(3) by (simp add: parse_expression_def sh drain_def x e)
    next
      case opb: True
      from build_operator_short[OF opb nb(4), of "[]"] obtain e where e: "build b [] = Inl e" by auto
      from pop_operators_single[OF na(3), of b "[]"] show ?thesis
      proof
        assume "\<exists>e. pop_operators b [] [a] = Inl e"
        then obtain e' where "pop_operators b [] [a] = Inl e'" ..
        then have "shunt_all (tokens line) ([], []) = Inl e'"
          by (simp add: toks shunt_identifier[OF a] shunt_identifier[OF b] shunt_space opa opb
                pop_operators_empty)
        then show ?thesis by (simp add: parse_expression_def)
      next
        assume "pop_operators b [] [a] = Inr ([], [a])"
        then have sh: "shunt_all (tokens line) ([], []) = Inr ([], [a, b])"
          by (simp add: toks shunt_identifier[OF a] shunt_identifier[OF b] shunt_space opa opb
                pop_operators_empty)
        show ?thesis using na(3) nb(3) by (simp add: parse_expression_def sh drain_def e)
      qed
    qed
  qed
qed

text \<open>
  C5. The claim: for identifiers \<open>a\<close> and \<open>b\<close>, parsing \<^verbatim>\<open>a << b\<close> (or
  \<^verbatim>\<open>a >> b\<close>) yields a \<^verbatim>\<open>BinaryOperandExpression\<close> with that operator. The code:
  the table \<^verbatim>\<open>_operators\<close> has both operators, but no alternative of the token regex
  matches \<^verbatim>\<open><\<close> or \<^verbatim>\<open>>\<close>, so \<^verbatim>\<open>re.findall\<close> skips them; the tokens are the two
  identifiers and the blanks, and \<^verbatim>\<open>parse_expression\<close> raises for every pair of
  identifiers (for two plain names, "Expressions must produce one value.").
\<close>

theorem shift_expression_fails:
  assumes "is_identifier a" and "is_identifier b"
  shows "tokens (a @ '' << '' @ b) = [a, '' '', '' '', b]
       \<and> tokens (a @ '' >> '' @ b) = [a, '' '', '' '', b]
       \<and> (\<exists>e. parse_expression (a @ '' << '' @ b) = Inl e)
       \<and> (\<exists>e. parse_expression (a @ '' >> '' @ b) = Inl e)"
proof -
  have l: "tokens (a @ '' << '' @ b) = [a, '' '', '' '', b]"
    using tokens_shift_expression[OF assms, of "CHR ''<''"] by simp
  have r: "tokens (a @ '' >> '' @ b) = [a, '' '', '' '', b]"
    using tokens_shift_expression[OF assms, of "CHR ''>''"] by simp
  show ?thesis
    using l r parse_shift_tokens[OF assms l] parse_shift_tokens[OF assms r] by blast
qed

theorem shift_expression_fails_witness:
  "is_identifier ''a'' \<and> is_identifier ''b''
   \<and> tokens ''a << b'' = [''a'', '' '', '' '', ''b'']
   \<and> parse_expression ''a << b'' = Inl (Exception ''Expressions must produce one value.'')
   \<and> parse_expression ''a >> b'' = Inl (Exception ''Expressions must produce one value.'')
   \<and> parse_expression ''a + b'' =
       Inr (BinaryOperandExpression ''+'' (VariableExpression (TargetName ''a''))
              (VariableExpression (TargetName ''b'')) None)"
proof -
  have i: "is_identifier ''a''" "is_identifier ''b''"
    by (simp_all add: is_identifier_def is_word_def)
  have "parse_expression ''a << b'' = Inl (Exception ''Expressions must produce one value.'')"
    "parse_expression ''a >> b'' = Inl (Exception ''Expressions must produce one value.'')"
    "parse_expression ''a + b'' =
       Inr (BinaryOperandExpression ''+'' (VariableExpression (TargetName ''a''))
              (VariableExpression (TargetName ''b'')) None)"
    by code_simp+
  with shift_expression_fails[OF i] i show ?thesis by simp
qed

section \<open>The stack pass at \<^verbatim>\<open>RET\<close> and at \<^verbatim>\<open>PSH\<close>\<close>

lemma matches_RET_is_word_any: "matches_literal ''RET'' m \<Longrightarrow> matches_word_any m"
  by (auto simp add: matches_literal_def matches_word_any_def no_newline_to_end_def is_word_def)

text \<open>
  With the default optimizers the inner loop of the stack pass is a choice between
  three optimizers. \<^verbatim>\<open>StackVerificationOptimizer\<close> stands behind
  \<^verbatim>\<open>GeneralStackOptimizer\<close> in the list, whose regex \<^verbatim>\<open>\w.*\<close> matches every
  mnemonic that \<^verbatim>\<open>RET\<close> matches, and the loop breaks after the first match: the
  verification never runs.
\<close>

lemma stack_step_default:
  "stack_step default_optimizers i st =
     and_then (operand (v_insts st ! i) 0)
       (\<lambda>m. if matches_literal ''PSH'' (upper m) then PushStackOptimizer i st
             else if matches_literal ''POP'' (upper m) then PopStackOptimizer i st
             else if matches_word_any (upper m) then GeneralStackOptimizer i st
             else Inr st)"
  by (auto simp add: default_optimizers_def and_then_def split: sum.splits
        dest: matches_RET_is_word_any)

text \<open>
  C1. The claim: when the virtual stack is not empty at a \<^verbatim>\<open>RET\<close>, \<^verbatim>\<open>commit\<close>
  aborts with a fatal error and writes nothing. The code, on the instructions
  \<^verbatim>\<open>psh R1; ret\<close>: the stack pass reaches the \<^verbatim>\<open>ret\<close> with one entry on the
  virtual stack, runs \<^verbatim>\<open>GeneralStackOptimizer\<close> on it, which does not look at the
  stack, and ends without an error; \<^verbatim>\<open>commit\<close> writes both instructions. The same
  happens to what \<^verbatim>\<open>push(5); ret()\<close> emit, of which \<^verbatim>\<open>ret\<close> is written.
\<close>

theorem commit_with_stack_at_RET:
  "map_sum id v_stack
     (stack_pass default_optimizers [0..<1] (initial_vstate [[''psh'', ''R1''], [''ret'']]))
     = Inr [NoValue]
   \<and> map_sum id v_stack
       (stack_pass default_optimizers [0..<2] (initial_vstate [[''psh'', ''R1''], [''ret'']]))
       = Inr [NoValue]
   \<and> commit ((URCLEmitter False True)\<lparr>insts := [[''psh'', ''R1''], [''ret'']]\<rparr>)
       = Some (Inr [''psh R1'' @ [CHR 0x0A], ''ret'' @ [CHR 0x0A]])
   \<and> commit (ret (push 5 (URCLEmitter False True))) = Some (Inr [''ret'' @ [CHR 0x0A]])"
  by code_simp

text \<open>
  What \<^verbatim>\<open>PushStackOptimizer\<close> does with a literal, and with a register: the literal is
  recorded and the instruction replaced; the contents of the register are recorded, known
  or not, and the instruction is kept.
\<close>

lemma PushStackOptimizer_literal:
  "i < length (v_insts st) \<Longrightarrow> v_insts st ! i = [m, x] \<Longrightarrow> parse_value x = Inr v \<Longrightarrow>
   PushStackOptimizer i st =
     Inr (st\<lparr>v_stack := v_stack st @ [IntValue v], v_insts := (v_insts st)[i := [''nop'']]\<rparr>)"
  by (simp add: PushStackOptimizer_def and_then_def operand_def)

lemma PushStackOptimizer_register:
  "v_insts st ! i = [m, x] \<Longrightarrow> parse_value x = Inl e \<Longrightarrow> startswith (upper x) ''R'' \<Longrightarrow>
   PushStackOptimizer i st = Inr (st\<lparr>v_stack := v_stack st @ [get_reg (v_registers st) x]\<rparr>)"
  by (simp add: PushStackOptimizer_def and_then_def operand_def)

text \<open>
  C4. The claim: a \<^verbatim>\<open>PSH\<close> of a register whose contents are known is replaced with
  \<^verbatim>\<open>nop\<close>, and \<^verbatim>\<open>psh 3; pop R1; psh R1; pop R2\<close> is optimized to one instruction
  equivalent to \<^verbatim>\<open>mov R2 3\<close>. The code: at \<^verbatim>\<open>psh R1\<close> the stack pass records the
  known 3 but keeps the instruction, while the three other instructions become
  \<^verbatim>\<open>nop\<close>; \<^verbatim>\<open>commit\<close> writes the single line \<^verbatim>\<open>psh R1\<close>, a push without its
  pop, and neither R1 nor R2 receives the 3.
\<close>

theorem psh_pop_psh_pop:
  "map_sum id v_insts
     (stack_pass default_optimizers [0..<4]
        (initial_vstate [[''psh'', ''3''], [''pop'', ''R1''], [''psh'', ''R1''], [''pop'', ''R2'']]))
     = Inr [[''nop''], [''nop''], [''psh'', ''R1''], [''nop'']]
   \<and> map_sum id v_stack
       (stack_pass default_optimizers [0..<3]
          (initial_vstate [[''psh'', ''3''], [''pop'', ''R1''], [''psh'', ''R1''], [''pop'', ''R2'']]))
       = Inr [IntValue 3]
   \<and> commit ((URCLEmitter False True)
               \<lparr>insts := [[''psh'', ''3''], [''pop'', ''R1''], [''psh'', ''R1''], [''pop'', ''R2'']]\<rparr>)
       = Some (Inr [''psh R1'' @ [CHR 0x0A]])"
  by code_simp

end
